theory Spec2Isabelle
  imports Complex_Main "HOL-Library.Char_ord" "HOL-Library.List_Lexorder"
begin

section \<open>Data model: columns and frames\<close>

text \<open>
  The notebook \<^verbatim>\<open>house_price_pred.ipynb\<close> works on pandas data frames read by
  \<^verbatim>\<open>pd.read_csv\<close>. A column read from a CSV file has one of four dtypes:
  \<^verbatim>\<open>object\<close> (strings, a missing cell is NaN), \<^verbatim>\<open>float64\<close> (a missing
  cell is NaN), \<^verbatim>\<open>int64\<close> and \<^verbatim>\<open>bool\<close> (neither can hold a missing cell:
  pandas reads a column with a hole as float64 or object). Floating-point numbers are
  modelled by the reals; a missing cell is \<open>None\<close>.

  A frame is the list of its labelled columns, in column order. \<^verbatim>\<open>pd.read_csv\<close>
  makes the labels unique (a repeated header is renamed); the theorems about raw frames
  assume it (\<open>distinct (columns df)\<close>).
\<close>

datatype column =
    ObjCol "string option list"
  | FloatCol "real option list"
  | IntCol "int list"
  | BoolCol "bool list"

type_synonym frame = "(string \<times> column) list"

datatype error =
    KeyError string
  | ValueError
  | NameError string
  | OverflowError

fun col_len :: "column \<Rightarrow> nat" where
  "col_len (ObjCol xs) = length xs"
| "col_len (FloatCol xs) = length xs"
| "col_len (IntCol xs) = length xs"
| "col_len (BoolCol xs) = length xs"

text \<open>\<^verbatim>\<open>Series.isnull()\<close>: one flag per cell.\<close>

fun isnull :: "column \<Rightarrow> bool list" where
  "isnull (ObjCol xs) = map (\<lambda>x. x = None) xs"
| "isnull (FloatCol xs) = map (\<lambda>x. x = None) xs"
| "isnull (IntCol xs) = map (\<lambda>_. False) xs"
| "isnull (BoolCol xs) = map (\<lambda>_. False) xs"

definition null_count :: "column \<Rightarrow> nat" where
  "null_count c = length (filter (\<lambda>b. b) (isnull c))"

definition any_null :: "column \<Rightarrow> bool" where
  "any_null c = (True \<in> set (isnull c))"

definition columns :: "frame \<Rightarrow> string list" where
  "columns df = map fst df"

definition no_missing :: "frame \<Rightarrow> bool" where
  "no_missing df = list_all (\<lambda>c. \<not> any_null (snd c)) df"

text \<open>\<^verbatim>\<open>df[col]\<close> for one label: KeyError when the label is absent.\<close>

definition getitem :: "frame \<Rightarrow> string \<Rightarrow> error + column" where
  "getitem df col = (case map_of df col of None \<Rightarrow> Inl (KeyError col) | Some c \<Rightarrow> Inr c)"

text \<open>
  \<^verbatim>\<open>df.drop(columns=labels)\<close>: every column carrying one of the labels goes;
  a label the frame does not have raises KeyError.
\<close>

definition drop_labels :: "string list \<Rightarrow> frame \<Rightarrow> error + frame" where
  "drop_labels labels df =
     (case filter (\<lambda>l. l \<notin> set (columns df)) labels of
        l # _ \<Rightarrow> Inl (KeyError l)
      | [] \<Rightarrow> Inr (filter (\<lambda>c. fst c \<notin> set labels) df))"

text \<open>\<^verbatim>\<open>df[col] = values\<close>: replaces the column in place, or appends a new one.\<close>

definition setitem :: "string \<Rightarrow> column \<Rightarrow> frame \<Rightarrow> frame" where
  "setitem col v df =
     (if col \<in> set (columns df)
      then map (\<lambda>c. if fst c = col then (col, v) else c) df
      else df @ [(col, v)])"

section \<open>Cleaner\<close>

text \<open>
  \<^verbatim>\<open>threshold = 0.3\<close>,
  \<^verbatim>\<open>missing_percentages = df.isnull().mean()\<close>: the share of missing cells of a
  column; on a frame with no row it is NaN (\<open>None\<close>), and NaN is not greater than
  anything.
\<close>

definition threshold :: real where
  "threshold = 0.3"

definition missing_percentage :: "column \<Rightarrow> real option" where
  "missing_percentage c =
     (if col_len c = 0 then None
      else Some (real (null_count c) / real (col_len c)))"

definition exceeds :: "real option \<Rightarrow> real \<Rightarrow> bool" where
  "exceeds p t = (case p of None \<Rightarrow> False | Some x \<Rightarrow> x > t)"

text \<open>
  \<^verbatim>\<open>columns_to_drop = missing_percentages[missing_percentages > threshold].index\<close>
\<close>

definition columns_to_drop :: "frame \<Rightarrow> string list" where
  "columns_to_drop df =
     map fst (filter (\<lambda>c. exceeds (missing_percentage (snd c)) threshold) df)"

text \<open>
  \<^verbatim>\<open>select_dtypes(include=['object'])\<close> and
  \<^verbatim>\<open>select_dtypes(include=[np.number])\<close>: bool is not a number dtype.
\<close>

fun is_object :: "column \<Rightarrow> bool" where
  "is_object (ObjCol _) = True"
| "is_object _ = False"

fun is_number :: "column \<Rightarrow> bool" where
  "is_number (FloatCol _) = True"
| "is_number (IntCol _) = True"
| "is_number _ = False"

definition cat_columns :: "frame \<Rightarrow> string list" where
  "cat_columns df = map fst (filter (\<lambda>c. is_object (snd c)) df)"

definition num_columns :: "frame \<Rightarrow> string list" where
  "num_columns df = map fst (filter (\<lambda>c. is_number (snd c)) df)"

definition has_null :: "frame \<Rightarrow> string \<Rightarrow> bool" where
  "has_null df col = (case map_of df col of None \<Rightarrow> False | Some c \<Rightarrow> any_null c)"

definition cat_null_columns :: "frame \<Rightarrow> string list" where
  "cat_null_columns df = filter (has_null df) (cat_columns df)"

definition num_null_columns :: "frame \<Rightarrow> string list" where
  "num_null_columns df = filter (has_null df) (num_columns df)"

text \<open>
  \<^verbatim>\<open>SimpleImputer(strategy="most_frequent")\<close> on one column: the fill value is the
  most frequent value among the cells present, the smallest one when several are equally
  frequent. A column with no cell present has no fill value: scikit-learn then leaves the
  column out of its result, and assigning the empty result to the frame's column raises
  ValueError.
\<close>

fun present :: "'a option list \<Rightarrow> 'a list" where
  "present [] = []"
| "present (None # xs) = present xs"
| "present (Some x # xs) = x # present xs"

fun max_count :: "'a list \<Rightarrow> 'a list \<Rightarrow> nat" where
  "max_count vs [] = 0"
| "max_count vs (x # xs) = max (count_list vs x) (max_count vs xs)"

fun least :: "'a::linorder \<Rightarrow> 'a list \<Rightarrow> 'a" where
  "least m [] = m"
| "least m (x # xs) = least (min m x) xs"

definition most_frequent :: "'a::linorder list \<Rightarrow> 'a option" where
  "most_frequent vs =
     (case filter (\<lambda>v. count_list vs v = max_count vs vs) vs of
        [] \<Rightarrow> None
      | c # cs \<Rightarrow> Some (least c cs))"

definition fillna :: "'a option \<Rightarrow> 'a option list \<Rightarrow> 'a option list" where
  "fillna v xs = map (\<lambda>x. case x of None \<Rightarrow> v | Some y \<Rightarrow> Some y) xs"

fun impute_most_frequent :: "column \<Rightarrow> error + column" where
  "impute_most_frequent (ObjCol xs) =
     (case most_frequent (present xs) of
        None \<Rightarrow> Inl ValueError
      | Some m \<Rightarrow> Inr (ObjCol (fillna (Some m) xs)))"
| "impute_most_frequent (FloatCol xs) =
     (case most_frequent (present xs) of
        None \<Rightarrow> Inl ValueError
      | Some m \<Rightarrow> Inr (FloatCol (fillna (Some m) xs)))"
| "impute_most_frequent c = Inr c"

text \<open>
  \<^verbatim>\<open>for column in cat_null_columns:
      df_dropped[column] = most_freq_imp.fit_transform(df_dropped[[column]]).ravel()\<close>
\<close>

fun fill_most_frequent :: "string list \<Rightarrow> frame \<Rightarrow> error + frame" where
  "fill_most_frequent [] df = Inr df"
| "fill_most_frequent (column # rest) df =
     (case getitem df column of
        Inl e \<Rightarrow> Inl e
      | Inr c \<Rightarrow>
          (case impute_most_frequent c of
             Inl e \<Rightarrow> Inl e
           | Inr c' \<Rightarrow> fill_most_frequent rest (setitem column c' df)))"

text \<open>
  \<^verbatim>\<open>Series.mean()\<close> skips missing cells and is NaN when no cell is present;
  \<^verbatim>\<open>fillna(NaN)\<close> changes nothing. The call is made on \<^verbatim>\<open>df_dropped[column]\<close>
  with \<^verbatim>\<open>inplace=True\<close> and is taken to update the frame, as it does in pandas
  before version 3.
\<close>

definition mean :: "real list \<Rightarrow> real option" where
  "mean vs = (if vs = [] then None else Some (sum_list vs / real (length vs)))"

fun fillna_mean :: "column \<Rightarrow> column" where
  "fillna_mean (FloatCol xs) = FloatCol (fillna (mean (present xs)) xs)"
| "fillna_mean c = c"

text \<open>
  \<^verbatim>\<open>for column in num_null_columns:
      df_dropped[column].fillna(df_dropped[column].mean(), inplace=True)\<close>
\<close>

fun fill_mean :: "string list \<Rightarrow> frame \<Rightarrow> error + frame" where
  "fill_mean [] df = Inr df"
| "fill_mean (column # rest) df =
     (case getitem df column of
        Inl e \<Rightarrow> Inl e
      | Inr c \<Rightarrow> fill_mean rest (setitem column (fillna_mean c) df))"

text \<open>
  The Cleaner: the cells of the notebook from \<^verbatim>\<open>threshold = 0.3\<close> to the mean
  imputation, on the raw frame \<^verbatim>\<open>df\<close>; the result is \<^verbatim>\<open>df_dropped\<close>.
\<close>

definition clean :: "frame \<Rightarrow> error + frame" where
  "clean df =
     (case drop_labels (columns_to_drop df) df of
        Inl e \<Rightarrow> Inl e
      | Inr d1 \<Rightarrow>
          (case drop_labels [''Id''] d1 of
             Inl e \<Rightarrow> Inl e
           | Inr df_dropped \<Rightarrow>
               (case fill_most_frequent (cat_null_columns df_dropped) df_dropped of
                  Inl e \<Rightarrow> Inl e
                | Inr d3 \<Rightarrow> fill_mean (num_null_columns df_dropped) d3)))"


section \<open>Library functions taken as parameters\<close>

text \<open>
  What the notebook calls but does not define is a field of \<open>pylib\<close>: Python's
  \<^verbatim>\<open>str\<close> of a number and \<^verbatim>\<open>int\<close> of a string, the importances of a
  fitted random forest (a function of the generator's seed and the data), NumPy's
  \<^verbatim>\<open>permutation\<close> (a function of the generator's state), the mean cross-validation
  score of an estimator (\<open>None\<close> when its fits fail: the score is NaN), the exception a
  \<^verbatim>\<open>fit\<close> raises, if any, and the default constructor arguments of each estimator.
\<close>

datatype family = LogisticRegression | RandomForestRegressor | XGBRegressor | CatBoostRegressor

datatype pyval = PInt int | PFloat real | PStr string | PIndices "nat list"

type_synonym kwargs = "(string \<times> pyval) list"

record pylib =
  str_float :: "real \<Rightarrow> string"
  str_int :: "int \<Rightarrow> string"
  int_of_str :: "string \<Rightarrow> int option"
  forest_importances :: "nat \<Rightarrow> frame \<Rightarrow> column \<Rightarrow> error + real list"
  permutation :: "nat \<Rightarrow> nat \<Rightarrow> nat list"
  cv_score :: "family \<Rightarrow> kwargs \<Rightarrow> nat \<Rightarrow> frame \<Rightarrow> column \<Rightarrow> nat \<Rightarrow> real option"
  fit_error :: "family \<Rightarrow> kwargs \<Rightarrow> frame \<Rightarrow> column \<Rightarrow> error option"
  defaults :: "family \<Rightarrow> kwargs"

text \<open>
  \<^verbatim>\<open>check_random_state\<close>: an estimator built with \<^verbatim>\<open>random_state=s\<close> draws from
  a generator seeded with \<open>s\<close>; one built without draws from the global generator, whose
  state differs from run to run.
\<close>

definition check_random_state :: "nat option \<Rightarrow> nat \<Rightarrow> nat" where
  "check_random_state random_state entropy =
     (case random_state of None \<Rightarrow> entropy | Some s \<Rightarrow> s)"

section \<open>Encoder\<close>

definition ord_enc_cols :: "string list" where
  "ord_enc_cols = [''LotShape'', ''ExterQual'', ''ExterCond'', ''BsmtQual'', ''BsmtCond'',
     ''BsmtExposure'', ''BsmtFinType1'', ''BsmtFinType2'', ''HeatingQC'', ''KitchenQual'',
     ''GarageQual'', ''GarageCond'']"

definition one_hot_enc_cols :: "string list" where
  "one_hot_enc_cols = [''MSZoning'', ''Street'', ''LandContour'', ''Utilities'',
     ''LotConfig'', ''LandSlope'', ''Neighborhood'', ''Condition1'', ''Condition2'',
     ''BldgType'', ''HouseStyle'', ''RoofStyle'', ''RoofMatl'', ''Exterior1st'',
     ''Exterior2nd'', ''Foundation'', ''Heating'', ''Electrical'', ''Functional'',
     ''GarageType'', ''GarageFinish'', ''PavedDrive'', ''SaleType'', ''SaleCondition'']"

definition bin_enc_cols :: "string list" where
  "bin_enc_cols = [''CentralAir'']"

text \<open>
  The categories an encoder finds in a column: the distinct values present, in ascending
  order. The code of a value is its position among them.
\<close>

definition categories :: "'a::linorder list \<Rightarrow> 'a list" where
  "categories vs = sort (remdups vs)"

fun index_of :: "'a \<Rightarrow> 'a list \<Rightarrow> nat" where
  "index_of v [] = 0"
| "index_of v (x # xs) = (if x = v then 0 else Suc (index_of v xs))"

text \<open>
  \<^verbatim>\<open>OrdinalEncoder().fit_transform(df_clean[[col]])\<close>: float codes; a missing cell
  stays missing; a column with no row is refused (ValueError).
\<close>

definition ordinal_codes :: "'a::linorder option list \<Rightarrow> real option list" where
  "ordinal_codes xs =
     map (map_option (\<lambda>v. real (index_of v (categories (present xs))))) xs"

fun ordinal_encoder :: "column \<Rightarrow> error + column" where
  "ordinal_encoder (ObjCol xs) =
     (if xs = [] then Inl ValueError else Inr (FloatCol (ordinal_codes xs)))"
| "ordinal_encoder (FloatCol xs) =
     (if xs = [] then Inl ValueError else Inr (FloatCol (ordinal_codes xs)))"
| "ordinal_encoder (IntCol xs) =
     (if xs = [] then Inl ValueError else Inr (FloatCol (ordinal_codes (map Some xs))))"
| "ordinal_encoder (BoolCol xs) =
     (if xs = [] then Inl ValueError else Inr (FloatCol (ordinal_codes (map Some xs))))"

text \<open>
  \<^verbatim>\<open>for col in ord_enc_cols:
      df_clean[col] = ord_enc.fit_transform(df_clean[[col]])\<close>
\<close>

fun encode_ordinal :: "string list \<Rightarrow> frame \<Rightarrow> error + frame" where
  "encode_ordinal [] df = Inr df"
| "encode_ordinal (col # rest) df =
     (case getitem df col of
        Inl e \<Rightarrow> Inl e
      | Inr c \<Rightarrow>
          (case ordinal_encoder c of
             Inl e \<Rightarrow> Inl e
           | Inr c' \<Rightarrow> encode_ordinal rest (setitem col c' df)))"

text \<open>
  \<^verbatim>\<open>pd.get_dummies(df_clean, columns=one_hot_enc_cols)\<close>: the listed columns leave the
  frame; for each of them, in the order listed, one boolean indicator column per category
  is appended, labelled \<^verbatim>\<open>column_category\<close>. A missing cell is in no category. A listed
  column the frame does not have raises KeyError.
\<close>

definition indicator :: "string \<Rightarrow> string \<Rightarrow> 'a option list \<Rightarrow> 'a \<Rightarrow> string \<times> column" where
  "indicator col level xs v = (col @ ''_'' @ level, BoolCol (map (\<lambda>x. x = Some v) xs))"

fun dummies :: "pylib \<Rightarrow> string \<Rightarrow> column \<Rightarrow> frame" where
  "dummies lib col (ObjCol xs) =
     map (\<lambda>v. indicator col v xs v) (categories (present xs))"
| "dummies lib col (FloatCol xs) =
     map (\<lambda>v. indicator col (str_float lib v) xs v) (categories (present xs))"
| "dummies lib col (IntCol xs) =
     map (\<lambda>v. indicator col (str_int lib v) (map Some xs) v) (categories xs)"
| "dummies lib col (BoolCol xs) =
     map (\<lambda>v. indicator col (if v then ''True'' else ''False'') (map Some xs) v) (categories xs)"

fun all_dummies :: "pylib \<Rightarrow> frame \<Rightarrow> string list \<Rightarrow> error + frame" where
  "all_dummies lib df [] = Inr []"
| "all_dummies lib df (col # rest) =
     (case getitem df col of
        Inl e \<Rightarrow> Inl e
      | Inr c \<Rightarrow>
          (case all_dummies lib df rest of
             Inl e \<Rightarrow> Inl e
           | Inr ds \<Rightarrow> Inr (dummies lib col c @ ds)))"

definition get_dummies :: "pylib \<Rightarrow> frame \<Rightarrow> string list \<Rightarrow> error + frame" where
  "get_dummies lib df cols =
     (case all_dummies lib df cols of
        Inl e \<Rightarrow> Inl e
      | Inr ds \<Rightarrow>
          (case drop_labels cols df of
             Inl e \<Rightarrow> Inl e
           | Inr rest \<Rightarrow> Inr (rest @ ds)))"

text \<open>
  \<^verbatim>\<open>LabelEncoder().fit_transform(df_clean[col])\<close>: integer codes; scikit-learn puts a
  missing value after the categories present.
\<close>

definition label_codes :: "'a::linorder option list \<Rightarrow> int list" where
  "label_codes xs =
     map (\<lambda>x. case x of
            None \<Rightarrow> int (length (categories (present xs)))
          | Some v \<Rightarrow> int (index_of v (categories (present xs)))) xs"

fun label_encoder :: "column \<Rightarrow> column" where
  "label_encoder (ObjCol xs) = IntCol (label_codes xs)"
| "label_encoder (FloatCol xs) = IntCol (label_codes xs)"
| "label_encoder (IntCol xs) = IntCol (label_codes (map Some xs))"
| "label_encoder (BoolCol xs) = IntCol (label_codes (map Some xs))"

text \<open>
  \<^verbatim>\<open>for col in bin_enc_cols:
      df_clean[col] = bin_enc.fit_transform(df_clean[col])\<close>
\<close>

fun encode_binary :: "string list \<Rightarrow> frame \<Rightarrow> error + frame" where
  "encode_binary [] df = Inr df"
| "encode_binary (col # rest) df =
     (case getitem df col of
        Inl e \<Rightarrow> Inl e
      | Inr c \<Rightarrow> encode_binary rest (setitem col (label_encoder c) df))"

text \<open>
  \<^verbatim>\<open>df_clean.astype(int)\<close>, to 64-bit integers: a float goes to the integer next to
  it towards zero when that integer has 64 bits, and to the smallest 64-bit integer when
  it has not (the conversion wraps silently); a boolean goes to 0 or 1, a string through
  Python's \<^verbatim>\<open>int\<close>. A missing cell, or a string that is not a number, raises
  ValueError; a string whose number has more than 64 bits raises OverflowError.
\<close>

definition trunc :: "real \<Rightarrow> int" where
  "trunc x = (if 0 \<le> x then \<lfloor>x\<rfloor> else \<lceil>x\<rceil>)"

definition in_int64 :: "int \<Rightarrow> bool" where
  "in_int64 i = (- (2 ^ 63) \<le> i \<and> i < 2 ^ 63)"

definition float_to_int64 :: "real \<Rightarrow> int" where
  "float_to_int64 x = (if in_int64 (trunc x) then trunc x else - (2 ^ 63))"

fun sequence :: "'a option list \<Rightarrow> 'a list option" where
  "sequence [] = Some []"
| "sequence (None # xs) = None"
| "sequence (Some x # xs) = (case sequence xs of None \<Rightarrow> None | Some ys \<Rightarrow> Some (x # ys))"

fun astype_int_obj :: "pylib \<Rightarrow> string option list \<Rightarrow> error + int list" where
  "astype_int_obj lib [] = Inr []"
| "astype_int_obj lib (None # xs) = Inl ValueError"
| "astype_int_obj lib (Some s # xs) =
     (case int_of_str lib s of
        None \<Rightarrow> Inl ValueError
      | Some i \<Rightarrow>
          if \<not> in_int64 i then Inl OverflowError
          else (case astype_int_obj lib xs of
                  Inl e \<Rightarrow> Inl e
                | Inr vs \<Rightarrow> Inr (i # vs)))"

fun astype_int_col :: "pylib \<Rightarrow> column \<Rightarrow> error + column" where
  "astype_int_col lib (IntCol xs) = Inr (IntCol xs)"
| "astype_int_col lib (BoolCol xs) = Inr (IntCol (map (\<lambda>b. if b then 1 else 0) xs))"
| "astype_int_col lib (FloatCol xs) =
     (case sequence xs of
        None \<Rightarrow> Inl ValueError
      | Some vs \<Rightarrow> Inr (IntCol (map float_to_int64 vs)))"
| "astype_int_col lib (ObjCol xs) =
     (case astype_int_obj lib xs of
        Inl e \<Rightarrow> Inl e
      | Inr vs \<Rightarrow> Inr (IntCol vs))"

fun astype_int :: "pylib \<Rightarrow> frame \<Rightarrow> error + frame" where
  "astype_int lib [] = Inr []"
| "astype_int lib ((name, c) # rest) =
     (case astype_int_col lib c of
        Inl e \<Rightarrow> Inl e
      | Inr c' \<Rightarrow>
          (case astype_int lib rest of
             Inl e \<Rightarrow> Inl e
           | Inr rest' \<Rightarrow> Inr ((name, c') # rest')))"

text \<open>
  The three encodings, on \<^verbatim>\<open>df_clean\<close> (a copy of the Cleaner's frame), and then the
  cast: the result is \<^verbatim>\<open>df_encoded\<close>.
\<close>

definition encode_categories :: "pylib \<Rightarrow> frame \<Rightarrow> error + frame" where
  "encode_categories lib df_clean =
     (case encode_ordinal ord_enc_cols df_clean of
        Inl e \<Rightarrow> Inl e
      | Inr d1 \<Rightarrow>
          (case get_dummies lib d1 one_hot_enc_cols of
             Inl e \<Rightarrow> Inl e
           | Inr d2 \<Rightarrow> encode_binary bin_enc_cols d2))"

definition encode :: "pylib \<Rightarrow> frame \<Rightarrow> error + frame" where
  "encode lib df_clean =
     (case encode_categories lib df_clean of
        Inl e \<Rightarrow> Inl e
      | Inr d \<Rightarrow> astype_int lib d)"

text \<open>
  The sum of a block of integer columns at one row (\<^verbatim>\<open>block.sum(axis=1)[r]\<close>); it is
  defined when every column of the block is an integer column with a row \<open>r\<close>.
\<close>

fun row_sum :: "frame \<Rightarrow> nat \<Rightarrow> int option" where
  "row_sum [] r = Some 0"
| "row_sum ((name, IntCol xs) # rest) r =
     (if r < length xs
      then (case row_sum rest r of None \<Rightarrow> None | Some s \<Rightarrow> Some (xs ! r + s))
      else None)"
| "row_sum ((name, c) # rest) r = None"


section \<open>Feature Selector\<close>

text \<open>
  \<^verbatim>\<open>df[labels]\<close> for a list of labels: for each label in turn, the columns that
  carry it; KeyError for a label the frame does not have.
\<close>

fun select :: "frame \<Rightarrow> string list \<Rightarrow> error + frame" where
  "select df [] = Inr []"
| "select df (l # ls) =
     (case filter (\<lambda>c. fst c = l) df of
        [] \<Rightarrow> Inl (KeyError l)
      | c # cs \<Rightarrow>
          (case select df ls of
             Inl e \<Rightarrow> Inl e
           | Inr rest \<Rightarrow> Inr ((c # cs) @ rest)))"

text \<open>
  \<^verbatim>\<open>sort_values(ascending=False)\<close>: by falling importance. (pandas leaves the order
  of equal importances open; here they keep the order of the columns.)
\<close>

definition sort_values_desc :: "(string \<times> real) list \<Rightarrow> (string \<times> real) list" where
  "sort_values_desc s = sort_key (\<lambda>p. - snd p) s"

text \<open>
  \<^verbatim>\<open>model = RandomForestRegressor(random_state=1)
  model.fit(df_encoded.drop('SalePrice', axis=1), df_encoded['SalePrice'])
  importance = model.feature_importances_
  feature_importance = pd.Series(importance, index=...columns).sort_values(ascending=False)
  selected_features = feature_importance[feature_importance > 0.001].index
  df_final = pd.concat([df_encoded[selected_features], df_encoded[['SalePrice']]], axis=1)\<close>

  \<open>entropy\<close> is the state of the global generator when the cell runs. The result is the
  pair of \<^verbatim>\<open>selected_features\<close> and \<^verbatim>\<open>df_final\<close>.
\<close>

definition feature_matrix :: "frame \<Rightarrow> error + frame" where
  "feature_matrix df_encoded = drop_labels [''SalePrice''] df_encoded"

definition feature_importance :: "pylib \<Rightarrow> nat \<Rightarrow> frame \<Rightarrow> error + (string \<times> real) list" where
  "feature_importance lib entropy df_encoded =
     (case feature_matrix df_encoded of
        Inl e \<Rightarrow> Inl e
      | Inr features \<Rightarrow>
          (case getitem df_encoded ''SalePrice'' of
             Inl e \<Rightarrow> Inl e
           | Inr target \<Rightarrow>
               (case forest_importances lib (check_random_state (Some 1) entropy) features target of
                  Inl e \<Rightarrow> Inl e
                | Inr importance \<Rightarrow>
                    if length importance \<noteq> length features then Inl ValueError
                    else Inr (sort_values_desc (zip (columns features) importance)))))"

definition feature_selection :: "pylib \<Rightarrow> nat \<Rightarrow> frame \<Rightarrow> error + string list \<times> frame" where
  "feature_selection lib entropy df_encoded =
     (case feature_importance lib entropy df_encoded of
        Inl e \<Rightarrow> Inl e
      | Inr fi \<Rightarrow>
          (let selected_features = map fst (filter (\<lambda>p. snd p > 0.001) fi) in
           case select df_encoded selected_features of
             Inl e \<Rightarrow> Inl e
           | Inr chosen \<Rightarrow>
               (case select df_encoded [''SalePrice''] of
                  Inl e \<Rightarrow> Inl e
                | Inr target \<Rightarrow> Inr (selected_features, chosen @ target))))"

section \<open>Trainer\<close>

text \<open>
  \<^verbatim>\<open>def split_dataset(df, target_var):
      features = df.drop(target_var, axis = 1)
      target = df[target_var]
      X_train, X_test, y_train, y_test = train_test_split(features, target, test_size=0.2)
      return X_train, X_test, y_train, y_test\<close>

  \<^verbatim>\<open>train_test_split\<close> has no \<^verbatim>\<open>random_state\<close>: the rows are shuffled by a
  permutation drawn from the global generator; the first fifth (rounded up) is the test
  part, the rest the training part, and an empty training part is refused.
\<close>

record split =
  X_train :: frame
  X_test :: frame
  y_train :: column
  y_test :: column

definition take_rows :: "nat list \<Rightarrow> 'a list \<Rightarrow> 'a list" where
  "take_rows idx xs = map (\<lambda>i. xs ! i) (filter (\<lambda>i. i < length xs) idx)"

fun rows_of :: "nat list \<Rightarrow> column \<Rightarrow> column" where
  "rows_of idx (ObjCol xs) = ObjCol (take_rows idx xs)"
| "rows_of idx (FloatCol xs) = FloatCol (take_rows idx xs)"
| "rows_of idx (IntCol xs) = IntCol (take_rows idx xs)"
| "rows_of idx (BoolCol xs) = BoolCol (take_rows idx xs)"

definition frame_rows :: "nat list \<Rightarrow> frame \<Rightarrow> frame" where
  "frame_rows idx df = map (\<lambda>c. (fst c, rows_of idx (snd c))) df"

definition train_test_split :: "pylib \<Rightarrow> nat \<Rightarrow> frame \<Rightarrow> column \<Rightarrow> error + split" where
  "train_test_split lib entropy features target =
     (let n = col_len target;
          n_test = nat \<lceil>0.2 * real n\<rceil>;
          n_train = n - n_test
      in if n_train = 0 then Inl ValueError
         else
           (let p = permutation lib (check_random_state None entropy) n;
                test = take n_test p;
                train = take n_train (List.drop n_test p)
            in Inr \<lparr>X_train = frame_rows train features, X_test = frame_rows test features,
                     y_train = rows_of train target, y_test = rows_of test target\<rparr>))"

definition split_dataset :: "pylib \<Rightarrow> nat \<Rightarrow> frame \<Rightarrow> string \<Rightarrow> error + split" where
  "split_dataset lib entropy df target_var =
     (case drop_labels [target_var] df of
        Inl e \<Rightarrow> Inl e
      | Inr features \<Rightarrow>
          (case getitem df target_var of
             Inl e \<Rightarrow> Inl e
           | Inr target \<Rightarrow> train_test_split lib entropy features target))"

text \<open>The hyperparameter grids of the notebook, in the order written there.\<close>

definition param_grid_lr :: "(string \<times> pyval list) list" where
  "param_grid_lr =
     [(''C'', [PFloat 0.001, PFloat 0.01, PFloat 0.1, PInt 1, PInt 10, PInt 100, PInt 1000])]"

definition param_grid_rf :: "(string \<times> pyval list) list" where
  "param_grid_rf =
     [(''n_estimators'', [PInt 100, PInt 200]),
      (''max_features'', [PStr ''auto'', PStr ''sqrt'']),
      (''max_depth'', [PInt 6, PInt 7, PInt 8, PInt 9, PInt 10, PInt 11])]"

definition param_grid_xgb :: "(string \<times> pyval list) list" where
  "param_grid_xgb =
     [(''n_estimators'', [PInt 100, PInt 200]),
      (''learning_rate'', [PFloat 0.01, PFloat 0.05, PFloat 0.1]),
      (''max_depth'', [PInt 7, PInt 10]),
      (''colsample_bytree'', [PFloat 0.5, PFloat 0.7, PInt 1]),
      (''gamma'', [PFloat 0.0, PFloat 0.1, PFloat 0.2])]"

definition param_grid_cat :: "(string \<times> pyval list) list" where
  "param_grid_cat =
     [(''depth'', [PInt 6, PInt 8, PInt 10]),
      (''learning_rate'', [PFloat 0.01, PFloat 0.05, PFloat 0.1]),
      (''iterations'', [PInt 50, PInt 100, PInt 200])]"

text \<open>
  The folds of a grid search. For a classifier (the logistic model) on a target of
  classes, scikit-learn takes \<^verbatim>\<open>StratifiedKFold(cv)\<close>, which raises ValueError when
  every class has fewer than \<open>cv\<close> members; otherwise it takes \<^verbatim>\<open>KFold(cv)\<close>. Both
  raise ValueError when there are fewer than \<open>cv\<close> rows. A target of integers, booleans
  or strings is a target of classes, and so is one of floats that are all whole numbers.
\<close>

definition is_classifier :: "family \<Rightarrow> bool" where
  "is_classifier family = (family = LogisticRegression)"

definition counts :: "'a list \<Rightarrow> nat list" where
  "counts xs = map (count_list xs) (remdups xs)"

fun class_counts :: "column \<Rightarrow> nat list option" where
  "class_counts (IntCol xs) = Some (counts xs)"
| "class_counts (BoolCol xs) = Some (counts xs)"
| "class_counts (ObjCol xs) = Some (counts xs)"
| "class_counts (FloatCol xs) =
     (if list_all (\<lambda>x. case x of None \<Rightarrow> False | Some v \<Rightarrow> v = real_of_int \<lfloor>v\<rfloor>) xs
      then Some (counts xs) else None)"

definition check_cv :: "family \<Rightarrow> nat \<Rightarrow> column \<Rightarrow> error option" where
  "check_cv family cv y =
     (if col_len y < cv then Some ValueError
      else if is_classifier family then
        (case class_counts y of
           None \<Rightarrow> None
         | Some cs \<Rightarrow> if list_all (\<lambda>c. c < cv) cs then Some ValueError else None)
      else None)"

text \<open>
  \<^verbatim>\<open>GridSearchCV(estimator, param_grid, cv).fit(X, y).best_params_\<close>: the candidates
  are the combinations of the grid's values, the keys in ascending order; each is scored on
  a copy of the estimator with the candidate's values set over the estimator's own
  constructor arguments. A candidate whose fits fail has no score; when none has a score,
  the search raises ValueError. The first candidate of the best score wins, and the
  estimator is fitted once more with it on all of \<open>X\<close>. The result holds the grid's keys
  only.
\<close>

fun combinations :: "(string \<times> pyval list) list \<Rightarrow> kwargs list" where
  "combinations [] = [[]]"
| "combinations ((k, vs) # rest) =
     concat (map (\<lambda>v. map (\<lambda>c. (k, v) # c) (combinations rest)) vs)"

definition parameter_grid :: "(string \<times> pyval list) list \<Rightarrow> kwargs list" where
  "parameter_grid grid = combinations (sort_key fst grid)"

definition set_params :: "kwargs \<Rightarrow> kwargs \<Rightarrow> kwargs" where
  "set_params estimator params = params @ filter (\<lambda>p. fst p \<notin> set (map fst params)) estimator"

fun best_of ::
  "(kwargs \<Rightarrow> real option) \<Rightarrow> (kwargs \<times> real) option \<Rightarrow> kwargs list \<Rightarrow> (kwargs \<times> real) option"
  where
  "best_of score b [] = b"
| "best_of score b (c # cs) =
     best_of score
       (case score c of
          None \<Rightarrow> b
        | Some s \<Rightarrow>
            (case b of
               None \<Rightarrow> Some (c, s)
             | Some (c', s') \<Rightarrow> if s > s' then Some (c, s) else Some (c', s')))
       cs"

definition grid_search ::
  "pylib \<Rightarrow> family \<Rightarrow> kwargs \<Rightarrow> (string \<times> pyval list) list \<Rightarrow> nat \<Rightarrow> frame \<Rightarrow> column \<Rightarrow> nat
     \<Rightarrow> error + kwargs" where
  "grid_search lib family estimator param_grid cv X y entropy =
     (case check_cv family cv y of
        Some e \<Rightarrow> Inl e
      | None \<Rightarrow>
          (case best_of (\<lambda>params. cv_score lib family (set_params estimator params) cv X y entropy)
                  None (parameter_grid param_grid) of
             None \<Rightarrow> Inl ValueError
           | Some (best, s) \<Rightarrow>
               (case fit_error lib family (set_params estimator best) X y of
                  Some e \<Rightarrow> Inl e
                | None \<Rightarrow> Inr best)))"

text \<open>
  A final model is the constructor call and the data of its \<^verbatim>\<open>fit\<close>, which may
  raise. An argument the constructor call does not give has the library's default.
\<close>

record fitted =
  estimator :: family
  params :: kwargs
  fit_X :: frame
  fit_y :: column

definition get_param :: "pylib \<Rightarrow> fitted \<Rightarrow> string \<Rightarrow> pyval option" where
  "get_param lib m k =
     (case map_of (params m) k of
        Some v \<Rightarrow> Some v
      | None \<Rightarrow> map_of (defaults lib (estimator m)) k)"

text \<open>
  The three models on \<^verbatim>\<open>df_final\<close>:
  \<^verbatim>\<open>estimator_lr = LogisticRegression(solver='liblinear')
  grid_search_lr = GridSearchCV(estimator=estimator_lr, param_grid=param_grid_lr, cv=5)
  best_lr_model = LogisticRegression(**best_params_lr)
  best_lr_model.fit(X_train, y_train)\<close>
  and the same with \<^verbatim>\<open>RandomForestRegressor()\<close> and \<^verbatim>\<open>xgb.XGBRegressor()\<close>.
  \<open>entropy k\<close> is the state of the global generator at the \<open>k\<close>-th call that draws from it.
\<close>

definition estimator_lr :: kwargs where
  "estimator_lr = [(''solver'', PStr ''liblinear'')]"

definition refit :: "pylib \<Rightarrow> family \<Rightarrow> kwargs \<Rightarrow> (string \<times> pyval list) list \<Rightarrow> nat \<Rightarrow> kwargs
     \<Rightarrow> frame \<Rightarrow> column \<Rightarrow> nat \<Rightarrow> error + fitted" where
  "refit lib family est param_grid cv extra X y entropy =
     (case grid_search lib family est param_grid cv X y entropy of
        Inl e \<Rightarrow> Inl e
      | Inr best_params \<Rightarrow>
          (case fit_error lib family (best_params @ extra) X y of
             Some e \<Rightarrow> Inl e
           | None \<Rightarrow>
               Inr \<lparr>estimator = family, params = best_params @ extra, fit_X = X, fit_y = y\<rparr>))"

text \<open>
  The fourth model, on \<^verbatim>\<open>df_dropped\<close>:
  \<^verbatim>\<open>categorical_features_indices =
      np.where((X_train_01.dtypes != np.float64) & (X_train_01.dtypes != np.int64))[0]
  estimator_cat = CatBoostRegressor(loss_function='RMSE', cat_features=categorical_features_indices)
  grid_search_cat = GridSearchCV(estimator=estimator_cat, param_grid=param_grid_cat, cv=3,
                                 scoring='neg_root_mean_squared_error')
  best_cat_model = CatBoostRegressor(**best_params_cat, cat_features=categorical_features_indices)
  best_cat_model.fit(X_train_01, y_train_01)\<close>
\<close>

definition categorical_features_indices :: "frame \<Rightarrow> nat list" where
  "categorical_features_indices X =
     filter (\<lambda>i. \<not> is_number (snd (X ! i))) [0..<length X]"

definition estimator_cat :: "frame \<Rightarrow> kwargs" where
  "estimator_cat X =
     [(''loss_function'', PStr ''RMSE''),
      (''cat_features'', PIndices (categorical_features_indices X))]"

text \<open>
  The run from the raw frame to the four fitted models: Cleaner, Encoder, Feature Selector,
  Trainer.
\<close>

record run =
  df_dropped :: frame
  df_encoded :: frame
  selected_features :: "string list"
  df_final :: frame
  split_final :: split
  best_lr_model :: fitted
  best_rf_model :: fitted
  best_xgb_model :: fitted
  split_dropped :: split
  best_cat_model :: fitted

definition trainer :: "pylib \<Rightarrow> (nat \<Rightarrow> nat) \<Rightarrow> frame \<Rightarrow> frame
     \<Rightarrow> error + split \<times> fitted \<times> fitted \<times> fitted \<times> split \<times> fitted" where
  "trainer lib entropy final dropped =
     (case split_dataset lib (entropy 0) final ''SalePrice'' of
        Inl e \<Rightarrow> Inl e
      | Inr s \<Rightarrow>
     (case refit lib LogisticRegression estimator_lr param_grid_lr 5 []
             (X_train s) (y_train s) (entropy 1) of
        Inl e \<Rightarrow> Inl e
      | Inr lr \<Rightarrow>
     (case refit lib RandomForestRegressor [] param_grid_rf 5 []
             (X_train s) (y_train s) (entropy 2) of
        Inl e \<Rightarrow> Inl e
      | Inr rf \<Rightarrow>
     (case refit lib XGBRegressor [] param_grid_xgb 5 []
             (X_train s) (y_train s) (entropy 3) of
        Inl e \<Rightarrow> Inl e
      | Inr xgb \<Rightarrow>
     (case split_dataset lib (entropy 4) dropped ''SalePrice'' of
        Inl e \<Rightarrow> Inl e
      | Inr s01 \<Rightarrow>
     (case refit lib CatBoostRegressor (estimator_cat (X_train s01)) param_grid_cat 3
             [(''cat_features'', PIndices (categorical_features_indices (X_train s01)))]
             (X_train s01) (y_train s01) (entropy 5) of
        Inl e \<Rightarrow> Inl e
      | Inr cat \<Rightarrow> Inr (s, lr, rf, xgb, s01, cat)))))))"

definition pipeline :: "pylib \<Rightarrow> (nat \<Rightarrow> nat) \<Rightarrow> frame \<Rightarrow> error + run" where
  "pipeline lib entropy df =
     (case clean df of
        Inl e \<Rightarrow> Inl e
      | Inr dropped \<Rightarrow>
     (case encode lib dropped of
        Inl e \<Rightarrow> Inl e
      | Inr encoded \<Rightarrow>
     (case feature_selection lib (entropy 0) encoded of
        Inl e \<Rightarrow> Inl e
      | Inr (selected, final) \<Rightarrow>
     (case trainer lib entropy final dropped of
        Inl e \<Rightarrow> Inl e
      | Inr (s, lr, rf, xgb, s01, cat) \<Rightarrow>
          Inr \<lparr>df_dropped = dropped, df_encoded = encoded, selected_features = selected,
               df_final = final, split_final = s, best_lr_model = lr, best_rf_model = rf,
               best_xgb_model = xgb, split_dropped = s01, best_cat_model = cat\<rparr>))))"


section \<open>Evaluator\<close>

text \<open>
  The names bound in the notebook when the evaluation cells run: those of the import
  cell, those the cells before have assigned or defined, and the Python builtins the
  notebook uses. The import cell is
  \<^verbatim>\<open>import pandas as pd
  import numpy as np
  import matplotlib.pyplot as plt
  import seaborn as sns
  from scipy.stats import zscore
  from sklearn.impute import SimpleImputer
  from sklearn.preprocessing import OrdinalEncoder, LabelEncoder
  from category_encoders import HashingEncoder
  from sklearn.model_selection import train_test_split
  from sklearn.model_selection import GridSearchCV
  from sklearn.linear_model import LogisticRegression
  from sklearn.ensemble import RandomForestRegressor
  import xgboost as xgb
  from catboost import CatBoostRegressor\<close>
\<close>

definition imported_names :: "string list" where
  "imported_names =
     [''pd'', ''np'', ''plt'', ''sns'', ''zscore'', ''SimpleImputer'', ''OrdinalEncoder'',
      ''LabelEncoder'', ''HashingEncoder'', ''train_test_split'', ''GridSearchCV'',
      ''LogisticRegression'', ''RandomForestRegressor'', ''xgb'', ''CatBoostRegressor'']"

definition assigned_names :: "string list" where
  "assigned_names =
     [''df'', ''rows'', ''cols'', ''cat_vars'', ''threshold'', ''missing_percentages'',
      ''columns_to_drop'', ''df_dropped'', ''cat_columns'', ''num_columns'',
      ''cat_null_columns'', ''num_null_columns'', ''most_freq_imp'', ''column'',
      ''still_null'', ''fig'', ''i'', ''col'', ''df_clean'', ''ord_enc_cols'',
      ''one_hot_enc_cols'', ''bin_enc_cols'', ''ord_enc'', ''bin_enc'', ''df_encoded'',
      ''model'', ''importance'', ''feature_importance'', ''selected_features'', ''df_final'',
      ''split_dataset'', ''X_train'', ''X_test'', ''y_train'', ''y_test'',
      ''param_grid_lr'', ''estimator_lr'', ''grid_search_lr'', ''best_params_lr'',
      ''best_lr_model'', ''param_grid_rf'', ''estimator_rf'', ''grid_search_rf'',
      ''best_params_rf'', ''best_rf_model'', ''param_grid_xgb'', ''estimator_xgb'',
      ''grid_search_xgb'', ''best_params_xgb'', ''best_xgb_model'', ''lr_pred'', ''rf_pred'',
      ''xgb_pred'', ''eval_metrics'', ''X_train_01'', ''X_test_01'', ''y_train_01'',
      ''y_test_01'', ''categorical_features_indices'', ''param_grid_cat'', ''estimator_cat'',
      ''grid_search_cat'', ''best_params_cat'', ''best_cat_model'', ''cat_pred'']"

definition builtin_names :: "string list" where
  "builtin_names = [''print'', ''len'', ''range'', ''enumerate'']"

definition notebook_globals :: "string list" where
  "notebook_globals = imported_names @ assigned_names @ builtin_names"

text \<open>A call through a global name: NameError when the name is not bound.\<close>

definition call_global :: "string list \<Rightarrow> string \<Rightarrow> error + 'a \<Rightarrow> error + 'a" where
  "call_global globals name result =
     (if name \<in> set globals then result else Inl (NameError name))"

text \<open>
  The functions the names stand for when bound: scikit-learn's metrics, which refuse
  vectors of different lengths and empty ones, and \<^verbatim>\<open>math.sqrt\<close>. \<^verbatim>\<open>r2_score\<close> is
  NaN (\<open>None\<close>) on fewer than two samples; on a constant \<^verbatim>\<open>y_test\<close> it is 1 for a
  perfect prediction and 0 otherwise.
\<close>

definition mean_absolute_error :: "real list \<Rightarrow> real list \<Rightarrow> error + real" where
  "mean_absolute_error y_true y_pred =
     (if length y_true \<noteq> length y_pred \<or> y_true = [] then Inl ValueError
      else Inr (sum_list (map2 (\<lambda>a b. \<bar>a - b\<bar>) y_true y_pred) / real (length y_true)))"

definition mean_squared_error :: "real list \<Rightarrow> real list \<Rightarrow> error + real" where
  "mean_squared_error y_true y_pred =
     (if length y_true \<noteq> length y_pred \<or> y_true = [] then Inl ValueError
      else Inr (sum_list (map2 (\<lambda>a b. (a - b)\<^sup>2) y_true y_pred) / real (length y_true)))"

definition py_sqrt :: "real \<Rightarrow> error + real" where
  "py_sqrt x = (if x < 0 then Inl ValueError else Inr (sqrt x))"

definition r2_score :: "real list \<Rightarrow> real list \<Rightarrow> error + real option" where
  "r2_score y_true y_pred =
     (if length y_true \<noteq> length y_pred \<or> y_true = [] then Inl ValueError
      else if length y_true < 2 then Inr None
      else
        (let numerator = sum_list (map2 (\<lambda>a b. (a - b)\<^sup>2) y_true y_pred);
             m = sum_list y_true / real (length y_true);
             denominator = sum_list (map (\<lambda>a. (a - m)\<^sup>2) y_true)
         in if denominator \<noteq> 0 then Inr (Some (1 - numerator / denominator))
            else if numerator = 0 then Inr (Some 1)
            else Inr (Some 0)))"

text \<open>
  \<^verbatim>\<open>def eval_metrics(y_test, pred):
      mae = mean_absolute_error(y_test, pred)
      print(f"Mean Absolute Error (MAE): {mae}")
      mse = mean_squared_error(y_test, pred)
      print(f"Mean Squared Error (MSE): {mse}")
      rmse = sqrt(mse)
      print(f"Root Mean Squared Error (RMSE): {rmse}")
      r2 = r2_score(y_test, pred)
      print(f"R^2 Score: {r2}")\<close>

  The function returns nothing; its result is the four numbers it prints. (\<open>y_test'\<close>
  is the parameter \<^verbatim>\<open>y_test\<close>.)
\<close>

record metrics =
  mae :: real
  mse :: real
  rmse :: real
  r2 :: "real option"

definition eval_metrics :: "string list \<Rightarrow> real list \<Rightarrow> real list \<Rightarrow> error + metrics" where
  "eval_metrics globals y_test' pred =
     (case call_global globals ''mean_absolute_error'' (mean_absolute_error y_test' pred) of
        Inl e \<Rightarrow> Inl e
      | Inr a \<Rightarrow>
     (case call_global globals ''mean_squared_error'' (mean_squared_error y_test' pred) of
        Inl e \<Rightarrow> Inl e
      | Inr s \<Rightarrow>
     (case call_global globals ''sqrt'' (py_sqrt s) of
        Inl e \<Rightarrow> Inl e
      | Inr r \<Rightarrow>
     (case call_global globals ''r2_score'' (r2_score y_test' pred) of
        Inl e \<Rightarrow> Inl e
      | Inr q \<Rightarrow> Inr \<lparr>mae = a, mse = s, rmse = r, r2 = q\<rparr>))))"

section \<open>Auxiliary definitions\<close>

text \<open>
  What the Cleaner's two loops come to on a frame with unique labels: \<open>kept\<close> are the
  columns that stay, \<open>filled\<close> is a column after both imputations.
\<close>

definition imputed :: "column \<Rightarrow> column" where
  "imputed c = (case impute_most_frequent c of Inl _ \<Rightarrow> c | Inr c' \<Rightarrow> c')"

definition kept :: "frame \<Rightarrow> frame" where
  "kept df = filter (\<lambda>c. fst c \<noteq> ''Id'') (filter (\<lambda>c. fst c \<notin> set (columns_to_drop df)) df)"

definition filled :: "frame \<Rightarrow> string \<times> column \<Rightarrow> string \<times> column" where
  "filled d p =
     (fst p,
      if fst p \<in> set (num_null_columns d) then fillna_mean (snd p)
      else if fst p \<in> set (cat_null_columns d) then imputed (snd p)
      else snd p)"

text \<open>A raw frame of four houses, and the frame the Cleaner makes of it.\<close>

definition raw_example :: frame where
  "raw_example =
     [(''Id'', IntCol [1, 2, 3, 4]),
      (''MSZoning'', ObjCol [Some ''RL'', None, Some ''RM'', Some ''RL'']),
      (''LotFrontage'', FloatCol [Some 65, Some 80, None, Some 68]),
      (''Alley'', ObjCol [None, None, Some ''Pave'', None]),
      (''PoolQC'', FloatCol [None, None, None, None]),
      (''SalePrice'', IntCol [208500, 181500, 223500, 140000])]"

definition cleaned_example :: frame where
  "cleaned_example =
     [(''MSZoning'', ObjCol [Some ''RL'', Some ''RL'', Some ''RM'', Some ''RL'']),
      (''LotFrontage'', FloatCol [Some 65, Some 80, Some 71, Some 68]),
      (''SalePrice'', IntCol [208500, 181500, 223500, 140000])]"

text \<open>
  Relations between a frame and the frame a stage makes of it: \<open>same_but cols\<close> when
  only the columns labelled in \<open>cols\<close> may differ, \<open>cast_of\<close> when the second is the
  integer cast of the first. \<open>indicator_int\<close> is an indicator column after the cast.
\<close>

definition same_but :: "string list \<Rightarrow> string \<times> column \<Rightarrow> string \<times> column \<Rightarrow> bool" where
  "same_but cols p q = (fst q = fst p \<and> (fst p \<notin> set cols \<longrightarrow> q = p))"

definition cast_of :: "pylib \<Rightarrow> string \<times> column \<Rightarrow> string \<times> column \<Rightarrow> bool" where
  "cast_of lib p q = (fst q = fst p \<and> astype_int_col lib (snd p) = Inr (snd q))"

definition indicator_int :: "string \<Rightarrow> 'a option list \<Rightarrow> 'a \<Rightarrow> string \<times> column" where
  "indicator_int name xs v = (name, IntCol (map (\<lambda>x. if x = Some v then 1 else 0) xs))"

text \<open>
  Seven houses with every column the Encoder names, the frames the Cleaner and the Encoder
  make of them, and a stand-in for the library: a forest that finds its first \<open>seed + 2\<close>
  features important, a generator whose permutation reverses the rows, a constant
  cross-validation score for every candidate but those with \<^verbatim>\<open>max_features='auto'\<close>
  (which scikit-learn 1.3 and later refuses), and fits that raise nothing.
\<close>

definition houses :: frame where
  "houses =
     [(''Id'', IntCol [1, 2, 3, 4, 5, 6, 7]),
      (''MSZoning'', ObjCol [Some ''RL'', Some ''RL'', Some ''RL'', Some ''RL'', Some ''RL'',
         Some ''RL'', Some ''RM'']),
      (''LotFrontage'', FloatCol [Some 65, Some 80, Some 68, Some 60, Some 84, Some 85, None]),
      (''Street'', ObjCol [Some ''Pave'', Some ''Pave'', Some ''Pave'', Some ''Pave'', Some
         ''Pave'', Some ''Pave'', Some ''Pave'']),
      (''Alley'', ObjCol [None, None, None, None, None, Some ''Grvl'', None]),
      (''LotShape'', ObjCol [Some ''Reg'', Some ''Reg'', Some ''IR1'', Some ''IR1'', Some
         ''IR1'', Some ''IR1'', Some ''Reg'']),
      (''LandContour'', ObjCol [Some ''Lvl'', Some ''Lvl'', Some ''Lvl'', Some ''Lvl'', Some
         ''Lvl'', Some ''Lvl'', Some ''Lvl'']),
      (''Utilities'', ObjCol [Some ''AllPub'', Some ''AllPub'', Some ''AllPub'', Some
         ''AllPub'', Some ''AllPub'', Some ''AllPub'', Some ''AllPub'']),
      (''LotConfig'', ObjCol [Some ''Inside'', Some ''FR2'', Some ''Inside'', Some ''Corner'',
         Some ''FR2'', Some ''Inside'', Some ''Inside'']),
      (''LandSlope'', ObjCol [Some ''Gtl'', Some ''Gtl'', Some ''Gtl'', Some ''Gtl'', Some
         ''Gtl'', Some ''Gtl'', Some ''Gtl'']),
      (''Neighborhood'', ObjCol [Some ''CollgCr'', Some ''Veenker'', Some ''CollgCr'', Some
         ''Crawfor'', Some ''NoRidge'', Some ''Mitchel'', Some ''Somerst'']),
      (''Condition1'', ObjCol [Some ''Norm'', Some ''Feedr'', Some ''Norm'', Some ''Norm'',
         Some ''Norm'', Some ''Norm'', Some ''Norm'']),
      (''Condition2'', ObjCol [Some ''Norm'', Some ''Norm'', Some ''Norm'', Some ''Norm'',
         Some ''Norm'', Some ''Norm'', Some ''Norm'']),
      (''BldgType'', ObjCol [Some ''1Fam'', Some ''1Fam'', Some ''1Fam'', Some ''1Fam'', Some
         ''1Fam'', Some ''1Fam'', Some ''1Fam'']),
      (''HouseStyle'', ObjCol [Some ''2Story'', Some ''1Story'', Some ''2Story'', Some
         ''2Story'', Some ''2Story'', Some ''1.5Fin'', Some ''1Story'']),
      (''RoofStyle'', ObjCol [Some ''Gable'', Some ''Gable'', Some ''Gable'', Some ''Gable'',
         Some ''Gable'', Some ''Gable'', Some ''Gable'']),
      (''RoofMatl'', ObjCol [Some ''CompShg'', Some ''CompShg'', Some ''CompShg'', Some
         ''CompShg'', Some ''CompShg'', Some ''CompShg'', Some ''CompShg'']),
      (''Exterior1st'', ObjCol [Some ''VinylSd'', Some ''MetalSd'', Some ''VinylSd'', Some
         ''Wd Sdng'', Some ''VinylSd'', Some ''VinylSd'', Some ''VinylSd'']),
      (''Exterior2nd'', ObjCol [Some ''VinylSd'', Some ''MetalSd'', Some ''VinylSd'', Some
         ''Wd Shng'', Some ''VinylSd'', Some ''VinylSd'', Some ''VinylSd'']),
      (''ExterQual'', ObjCol [Some ''Gd'', Some ''TA'', Some ''Gd'', Some ''TA'', Some ''Gd'',
         Some ''TA'', Some ''Gd'']),
      (''ExterCond'', ObjCol [Some ''TA'', Some ''TA'', Some ''TA'', Some ''TA'', Some ''TA'',
         Some ''TA'', Some ''TA'']),
      (''Foundation'', ObjCol [Some ''PConc'', Some ''CBlock'', Some ''PConc'', Some
         ''BrkTil'', Some ''PConc'', Some ''Wood'', Some ''PConc'']),
      (''BsmtQual'', ObjCol [Some ''Gd'', Some ''Gd'', Some ''Gd'', Some ''TA'', Some ''Gd'',
         Some ''Gd'', Some ''Ex'']),
      (''BsmtCond'', ObjCol [Some ''TA'', Some ''TA'', Some ''TA'', Some ''Gd'', Some ''TA'',
         Some ''TA'', Some ''TA'']),
      (''BsmtExposure'', ObjCol [Some ''No'', Some ''Gd'', Some ''Mn'', Some ''No'', Some
         ''Av'', Some ''No'', Some ''Av'']),
      (''BsmtFinType1'', ObjCol [Some ''GLQ'', Some ''ALQ'', Some ''GLQ'', Some ''ALQ'', Some
         ''GLQ'', Some ''GLQ'', Some ''GLQ'']),
      (''BsmtFinType2'', ObjCol [Some ''Unf'', None, Some ''Unf'', Some ''Unf'', Some ''Unf'',
         Some ''Unf'', Some ''Unf'']),
      (''Heating'', ObjCol [Some ''GasA'', Some ''GasA'', Some ''GasA'', Some ''GasA'', Some
         ''GasA'', Some ''GasA'', Some ''GasA'']),
      (''HeatingQC'', ObjCol [Some ''Ex'', Some ''Ex'', Some ''Ex'', Some ''Gd'', Some ''Ex'',
         Some ''Ex'', Some ''Ex'']),
      (''CentralAir'', ObjCol [Some ''Y'', Some ''Y'', Some ''Y'', Some ''N'', Some ''Y'',
         Some ''Y'', Some ''Y'']),
      (''Electrical'', ObjCol [Some ''SBrkr'', Some ''SBrkr'', None, Some ''SBrkr'', Some
         ''SBrkr'', Some ''SBrkr'', Some ''SBrkr'']),
      (''KitchenQual'', ObjCol [Some ''Gd'', Some ''TA'', Some ''Gd'', Some ''Gd'', Some
         ''Gd'', Some ''TA'', Some ''Gd'']),
      (''Functional'', ObjCol [Some ''Typ'', Some ''Typ'', Some ''Typ'', Some ''Typ'', Some
         ''Typ'', Some ''Typ'', Some ''Typ'']),
      (''GarageType'', ObjCol [Some ''Attchd'', Some ''Attchd'', Some ''Attchd'', Some
         ''Detchd'', Some ''Attchd'', Some ''Attchd'', Some ''Attchd'']),
      (''GarageFinish'', ObjCol [Some ''RFn'', Some ''RFn'', Some ''RFn'', Some ''Unf'', Some
         ''RFn'', Some ''Unf'', Some ''RFn'']),
      (''GarageQual'', ObjCol [Some ''TA'', Some ''TA'', Some ''TA'', Some ''TA'', Some
         ''TA'', Some ''TA'', Some ''TA'']),
      (''GarageCond'', ObjCol [Some ''TA'', Some ''TA'', Some ''TA'', Some ''TA'', Some
         ''TA'', Some ''TA'', Some ''TA'']),
      (''PavedDrive'', ObjCol [Some ''Y'', Some ''Y'', Some ''Y'', Some ''Y'', Some ''Y'',
         Some ''Y'', Some ''Y'']),
      (''PoolQC'', ObjCol [None, None, None, None, None, None, None]),
      (''SaleType'', ObjCol [Some ''WD'', Some ''WD'', Some ''WD'', Some ''WD'', Some ''WD'',
         Some ''WD'', Some ''WD'']),
      (''SaleCondition'', ObjCol [Some ''Normal'', Some ''Normal'', Some ''Normal'', Some
         ''Abnorml'', Some ''Normal'', Some ''Normal'', Some ''Normal'']),
      (''SalePrice'', IntCol [208500, 181500, 223500, 140000, 250000, 143000, 307000])]"

definition houses_clean :: frame where
  "houses_clean =
     [(''MSZoning'',
        ObjCol
         [Some ''RL'', Some ''RL'', Some ''RL'', Some ''RL'', Some ''RL'',
          Some ''RL'', Some ''RM'']),
       (''LotFrontage'',
        FloatCol
         [Some 65, Some 80, Some 68, Some 60, Some 84, Some 85,
          Some (221 / 3)]),
       (''Street'',
        ObjCol
         [Some ''Pave'', Some ''Pave'', Some ''Pave'', Some ''Pave'',
          Some ''Pave'', Some ''Pave'', Some ''Pave'']),
       (''LotShape'',
        ObjCol
         [Some ''Reg'', Some ''Reg'', Some ''IR1'', Some ''IR1'',
          Some ''IR1'', Some ''IR1'', Some ''Reg'']),
       (''LandContour'',
        ObjCol
         [Some ''Lvl'', Some ''Lvl'', Some ''Lvl'', Some ''Lvl'',
          Some ''Lvl'', Some ''Lvl'', Some ''Lvl'']),
       (''Utilities'',
        ObjCol
         [Some ''AllPub'', Some ''AllPub'', Some ''AllPub'', Some ''AllPub'',
          Some ''AllPub'', Some ''AllPub'', Some ''AllPub'']),
       (''LotConfig'',
        ObjCol
         [Some ''Inside'', Some ''FR2'', Some ''Inside'', Some ''Corner'',
          Some ''FR2'', Some ''Inside'', Some ''Inside'']),
       (''LandSlope'',
        ObjCol
         [Some ''Gtl'', Some ''Gtl'', Some ''Gtl'', Some ''Gtl'',
          Some ''Gtl'', Some ''Gtl'', Some ''Gtl'']),
       (''Neighborhood'',
        ObjCol
         [Some ''CollgCr'', Some ''Veenker'', Some ''CollgCr'',
          Some ''Crawfor'', Some ''NoRidge'', Some ''Mitchel'',
          Some ''Somerst'']),
       (''Condition1'',
        ObjCol
         [Some ''Norm'', Some ''Feedr'', Some ''Norm'', Some ''Norm'',
          Some ''Norm'', Some ''Norm'', Some ''Norm'']),
       (''Condition2'',
        ObjCol
         [Some ''Norm'', Some ''Norm'', Some ''Norm'', Some ''Norm'',
          Some ''Norm'', Some ''Norm'', Some ''Norm'']),
       (''BldgType'',
        ObjCol
         [Some ''1Fam'', Some ''1Fam'', Some ''1Fam'', Some ''1Fam'',
          Some ''1Fam'', Some ''1Fam'', Some ''1Fam'']),
       (''HouseStyle'',
        ObjCol
         [Some ''2Story'', Some ''1Story'', Some ''2Story'', Some ''2Story'',
          Some ''2Story'', Some ''1.5Fin'', Some ''1Story'']),
       (''RoofStyle'',
        ObjCol
         [Some ''Gable'', Some ''Gable'', Some ''Gable'', Some ''Gable'',
          Some ''Gable'', Some ''Gable'', Some ''Gable'']),
       (''RoofMatl'',
        ObjCol
         [Some ''CompShg'', Some ''CompShg'', Some ''CompShg'',
          Some ''CompShg'', Some ''CompShg'', Some ''CompShg'',
          Some ''CompShg'']),
       (''Exterior1st'',
        ObjCol
         [Some ''VinylSd'', Some ''MetalSd'', Some ''VinylSd'',
          Some ''Wd Sdng'', Some ''VinylSd'', Some ''VinylSd'',
          Some ''VinylSd'']),
       (''Exterior2nd'',
        ObjCol
         [Some ''VinylSd'', Some ''MetalSd'', Some ''VinylSd'',
          Some ''Wd Shng'', Some ''VinylSd'', Some ''VinylSd'',
          Some ''VinylSd'']),
       (''ExterQual'',
        ObjCol
         [Some ''Gd'', Some ''TA'', Some ''Gd'', Some ''TA'', Some ''Gd'',
          Some ''TA'', Some ''Gd'']),
       (''ExterCond'',
        ObjCol
         [Some ''TA'', Some ''TA'', Some ''TA'', Some ''TA'', Some ''TA'',
          Some ''TA'', Some ''TA'']),
       (''Foundation'',
        ObjCol
         [Some ''PConc'', Some ''CBlock'', Some ''PConc'', Some ''BrkTil'',
          Some ''PConc'', Some ''Wood'', Some ''PConc'']),
       (''BsmtQual'',
        ObjCol
         [Some ''Gd'', Some ''Gd'', Some ''Gd'', Some ''TA'', Some ''Gd'',
          Some ''Gd'', Some ''Ex'']),
       (''BsmtCond'',
        ObjCol
         [Some ''TA'', Some ''TA'', Some ''TA'', Some ''Gd'', Some ''TA'',
          Some ''TA'', Some ''TA'']),
       (''BsmtExposure'',
        ObjCol
         [Some ''No'', Some ''Gd'', Some ''Mn'', Some ''No'', Some ''Av'',
          Some ''No'', Some ''Av'']),
       (''BsmtFinType1'',
        ObjCol
         [Some ''GLQ'', Some ''ALQ'', Some ''GLQ'', Some ''ALQ'',
          Some ''GLQ'', Some ''GLQ'', Some ''GLQ'']),
       (''BsmtFinType2'',
        ObjCol
         [Some ''Unf'', Some ''Unf'', Some ''Unf'', Some ''Unf'',
          Some ''Unf'', Some ''Unf'', Some ''Unf'']),
       (''Heating'',
        ObjCol
         [Some ''GasA'', Some ''GasA'', Some ''GasA'', Some ''GasA'',
          Some ''GasA'', Some ''GasA'', Some ''GasA'']),
       (''HeatingQC'',
        ObjCol
         [Some ''Ex'', Some ''Ex'', Some ''Ex'', Some ''Gd'', Some ''Ex'',
          Some ''Ex'', Some ''Ex'']),
       (''CentralAir'',
        ObjCol
         [Some ''Y'', Some ''Y'', Some ''Y'', Some ''N'', Some ''Y'',
          Some ''Y'', Some ''Y'']),
       (''Electrical'',
        ObjCol
         [Some ''SBrkr'', Some ''SBrkr'', Some ''SBrkr'', Some ''SBrkr'',
          Some ''SBrkr'', Some ''SBrkr'', Some ''SBrkr'']),
       (''KitchenQual'',
        ObjCol
         [Some ''Gd'', Some ''TA'', Some ''Gd'', Some ''Gd'', Some ''Gd'',
          Some ''TA'', Some ''Gd'']),
       (''Functional'',
        ObjCol
         [Some ''Typ'', Some ''Typ'', Some ''Typ'', Some ''Typ'',
          Some ''Typ'', Some ''Typ'', Some ''Typ'']),
       (''GarageType'',
        ObjCol
         [Some ''Attchd'', Some ''Attchd'', Some ''Attchd'', Some ''Detchd'',
          Some ''Attchd'', Some ''Attchd'', Some ''Attchd'']),
       (''GarageFinish'',
        ObjCol
         [Some ''RFn'', Some ''RFn'', Some ''RFn'', Some ''Unf'',
          Some ''RFn'', Some ''Unf'', Some ''RFn'']),
       (''GarageQual'',
        ObjCol
         [Some ''TA'', Some ''TA'', Some ''TA'', Some ''TA'', Some ''TA'',
          Some ''TA'', Some ''TA'']),
       (''GarageCond'',
        ObjCol
         [Some ''TA'', Some ''TA'', Some ''TA'', Some ''TA'', Some ''TA'',
          Some ''TA'', Some ''TA'']),
       (''PavedDrive'',
        ObjCol
         [Some ''Y'', Some ''Y'', Some ''Y'', Some ''Y'', Some ''Y'',
          Some ''Y'', Some ''Y'']),
       (''SaleType'',
        ObjCol
         [Some ''WD'', Some ''WD'', Some ''WD'', Some ''WD'', Some ''WD'',
          Some ''WD'', Some ''WD'']),
       (''SaleCondition'',
        ObjCol
         [Some ''Normal'', Some ''Normal'', Some ''Normal'',
          Some ''Abnorml'', Some ''Normal'', Some ''Normal'',
          Some ''Normal'']),
       (''SalePrice'',
        IntCol [208500, 181500, 223500, 140000, 250000, 143000, 307000])]"

definition houses_encoded :: frame where
  "houses_encoded =
     [(''LotFrontage'', IntCol [65, 80, 68, 60, 84, 85, 73]),
       (''LotShape'', IntCol [1, 1, 0, 0, 0, 0, 1]),
       (''ExterQual'', IntCol [0, 1, 0, 1, 0, 1, 0]),
       (''ExterCond'', IntCol [0, 0, 0, 0, 0, 0, 0]),
       (''BsmtQual'', IntCol [1, 1, 1, 2, 1, 1, 0]),
       (''BsmtCond'', IntCol [1, 1, 1, 0, 1, 1, 1]),
       (''BsmtExposure'', IntCol [3, 1, 2, 3, 0, 3, 0]),
       (''BsmtFinType1'', IntCol [1, 0, 1, 0, 1, 1, 1]),
       (''BsmtFinType2'', IntCol [0, 0, 0, 0, 0, 0, 0]),
       (''HeatingQC'', IntCol [0, 0, 0, 1, 0, 0, 0]),
       (''CentralAir'', IntCol [1, 1, 1, 0, 1, 1, 1]),
       (''KitchenQual'', IntCol [0, 1, 0, 0, 0, 1, 0]),
       (''GarageQual'', IntCol [0, 0, 0, 0, 0, 0, 0]),
       (''GarageCond'', IntCol [0, 0, 0, 0, 0, 0, 0]),
       (''SalePrice'',
        IntCol [208500, 181500, 223500, 140000, 250000, 143000, 307000]),
       (''MSZoning_RL'', IntCol [1, 1, 1, 1, 1, 1, 0]),
       (''MSZoning_RM'', IntCol [0, 0, 0, 0, 0, 0, 1]),
       (''Street_Pave'', IntCol [1, 1, 1, 1, 1, 1, 1]),
       (''LandContour_Lvl'', IntCol [1, 1, 1, 1, 1, 1, 1]),
       (''Utilities_AllPub'', IntCol [1, 1, 1, 1, 1, 1, 1]),
       (''LotConfig_Corner'', IntCol [0, 0, 0, 1, 0, 0, 0]),
       (''LotConfig_FR2'', IntCol [0, 1, 0, 0, 1, 0, 0]),
       (''LotConfig_Inside'', IntCol [1, 0, 1, 0, 0, 1, 1]),
       (''LandSlope_Gtl'', IntCol [1, 1, 1, 1, 1, 1, 1]),
       (''Neighborhood_CollgCr'', IntCol [1, 0, 1, 0, 0, 0, 0]),
       (''Neighborhood_Crawfor'', IntCol [0, 0, 0, 1, 0, 0, 0]),
       (''Neighborhood_Mitchel'', IntCol [0, 0, 0, 0, 0, 1, 0]),
       (''Neighborhood_NoRidge'', IntCol [0, 0, 0, 0, 1, 0, 0]),
       (''Neighborhood_Somerst'', IntCol [0, 0, 0, 0, 0, 0, 1]),
       (''Neighborhood_Veenker'', IntCol [0, 1, 0, 0, 0, 0, 0]),
       (''Condition1_Feedr'', IntCol [0, 1, 0, 0, 0, 0, 0]),
       (''Condition1_Norm'', IntCol [1, 0, 1, 1, 1, 1, 1]),
       (''Condition2_Norm'', IntCol [1, 1, 1, 1, 1, 1, 1]),
       (''BldgType_1Fam'', IntCol [1, 1, 1, 1, 1, 1, 1]),
       (''HouseStyle_1.5Fin'', IntCol [0, 0, 0, 0, 0, 1, 0]),
       (''HouseStyle_1Story'', IntCol [0, 1, 0, 0, 0, 0, 1]),
       (''HouseStyle_2Story'', IntCol [1, 0, 1, 1, 1, 0, 0]),
       (''RoofStyle_Gable'', IntCol [1, 1, 1, 1, 1, 1, 1]),
       (''RoofMatl_CompShg'', IntCol [1, 1, 1, 1, 1, 1, 1]),
       (''Exterior1st_MetalSd'', IntCol [0, 1, 0, 0, 0, 0, 0]),
       (''Exterior1st_VinylSd'', IntCol [1, 0, 1, 0, 1, 1, 1]),
       (''Exterior1st_Wd Sdng'', IntCol [0, 0, 0, 1, 0, 0, 0]),
       (''Exterior2nd_MetalSd'', IntCol [0, 1, 0, 0, 0, 0, 0]),
       (''Exterior2nd_VinylSd'', IntCol [1, 0, 1, 0, 1, 1, 1]),
       (''Exterior2nd_Wd Shng'', IntCol [0, 0, 0, 1, 0, 0, 0]),
       (''Foundation_BrkTil'', IntCol [0, 0, 0, 1, 0, 0, 0]),
       (''Foundation_CBlock'', IntCol [0, 1, 0, 0, 0, 0, 0]),
       (''Foundation_PConc'', IntCol [1, 0, 1, 0, 1, 0, 1]),
       (''Foundation_Wood'', IntCol [0, 0, 0, 0, 0, 1, 0]),
       (''Heating_GasA'', IntCol [1, 1, 1, 1, 1, 1, 1]),
       (''Electrical_SBrkr'', IntCol [1, 1, 1, 1, 1, 1, 1]),
       (''Functional_Typ'', IntCol [1, 1, 1, 1, 1, 1, 1]),
       (''GarageType_Attchd'', IntCol [1, 1, 1, 0, 1, 1, 1]),
       (''GarageType_Detchd'', IntCol [0, 0, 0, 1, 0, 0, 0]),
       (''GarageFinish_RFn'', IntCol [1, 1, 1, 0, 1, 0, 1]),
       (''GarageFinish_Unf'', IntCol [0, 0, 0, 1, 0, 1, 0]),
       (''PavedDrive_Y'', IntCol [1, 1, 1, 1, 1, 1, 1]),
       (''SaleType_WD'', IntCol [1, 1, 1, 1, 1, 1, 1]),
       (''SaleCondition_Abnorml'', IntCol [0, 0, 0, 1, 0, 0, 0]),
       (''SaleCondition_Normal'', IntCol [1, 1, 1, 0, 1, 1, 1])]"

definition example_lib :: pylib where
  "example_lib = \<lparr>str_float = (\<lambda>x. ''x''), str_int = (\<lambda>i. ''i''), int_of_str = (\<lambda>s. None),
     forest_importances = (\<lambda>seed X y. Inr (map (\<lambda>i. if i < seed + 2 then 0.3 else 0.0005) [0..<length X])),
     permutation = (\<lambda>rng n. rev [0..<n]),
     cv_score = (\<lambda>fam k cv X y rng.
        if (''max_features'', PStr ''auto'') \<in> set k then None else Some 0),
     fit_error = (\<lambda>fam k X y. None),
     defaults = (\<lambda>fam. [])\<rparr>"

text \<open>The feature-selected frame of the seven houses.\<close>

definition houses_final :: frame where
  "houses_final =
     [(''LotFrontage'', IntCol [65, 80, 68, 60, 84, 85, 73]),
      (''LotShape'', IntCol [1, 1, 0, 0, 0, 0, 1]),
      (''ExterQual'', IntCol [0, 1, 0, 1, 0, 1, 0]),
      (''SalePrice'', IntCol [208500, 181500, 223500, 140000, 250000, 143000, 307000])]"

text \<open>A raw frame whose target is missing in half of the rows.\<close>

definition sparse_target_example :: frame where
  "sparse_target_example =
     [(''Id'', IntCol [1, 2, 3, 4]),
      (''LotArea'', IntCol [8450, 9600, 11250, 9550]),
      (''SalePrice'', FloatCol [Some 208500, None, None, Some 140000])]"

text \<open>
  Twenty houses with every column the Encoder names, a wholly missing column
  \<^verbatim>\<open>PoolQC\<close> (float, as \<^verbatim>\<open>pd.read_csv\<close> reads an empty column) and two sale
  prices, so that each price has at least five members in any training part and the
  stratified folds of the logistic grid search exist.
\<close>

definition district :: frame where
  "district =
     [(''Id'', IntCol [1, 2, 3, 4, 5, 6, 7, 8, 9, 10, 11, 12, 13, 14, 15, 16, 17, 18, 19,
         20]),
      (''MSZoning'', ObjCol [Some ''RL'', Some ''RL'', Some ''RM'', Some ''RL'', Some ''RL'',
         Some ''RM'', Some ''RL'', Some ''RL'', Some ''RM'', Some ''RL'', Some ''RL'', Some
         ''RM'', Some ''RL'', Some ''RL'', Some ''RM'', Some ''RL'', Some ''RL'', Some ''RM'',
         Some ''RL'', Some ''RL'']),
      (''LotFrontage'', FloatCol [Some 65, Some 80, Some 68, Some 60, Some 84, Some 65, None,
         Some 68, Some 60, Some 84, Some 65, Some 80, Some 68, None, Some 84, Some 65, Some 80,
         Some 68, Some 60, Some 84]),
      (''LotArea'', IntCol [8450, 9600, 11250, 9550, 14260, 14115, 10084, 8450, 9600, 11250,
         9550, 14260, 14115, 10084, 8450, 9600, 11250, 9550, 14260, 14115]),
      (''Street'', ObjCol (replicate 20 (Some ''Pave''))),
      (''Alley'', ObjCol [None, None, None, None, None, Some ''Grvl'', None, None, None, None,
         None, None, Some ''Grvl'', None, None, None, None, None, None, None]),
      (''LotShape'', ObjCol [Some ''Reg'', Some ''IR1'', Some ''Reg'', Some ''IR1'', Some
         ''Reg'', Some ''IR1'', Some ''Reg'', Some ''IR1'', Some ''Reg'', Some ''IR1'', Some
         ''Reg'', Some ''IR1'', Some ''Reg'', Some ''IR1'', Some ''Reg'', Some ''IR1'', Some
         ''Reg'', Some ''IR1'', Some ''Reg'', Some ''IR1'']),
      (''LandContour'', ObjCol (replicate 20 (Some ''Lvl''))),
      (''Utilities'', ObjCol (replicate 20 (Some ''AllPub''))),
      (''LotConfig'', ObjCol [Some ''Inside'', Some ''FR2'', Some ''Corner'', Some ''Inside'',
         Some ''FR2'', Some ''Corner'', Some ''Inside'', Some ''FR2'', Some ''Corner'', Some
         ''Inside'', Some ''FR2'', Some ''Corner'', Some ''Inside'', Some ''FR2'', Some
         ''Corner'', Some ''Inside'', Some ''FR2'', Some ''Corner'', Some ''Inside'', Some
         ''FR2'']),
      (''LandSlope'', ObjCol (replicate 20 (Some ''Gtl''))),
      (''Neighborhood'', ObjCol [Some ''CollgCr'', Some ''Veenker'', Some ''Crawfor'', Some
         ''NoRidge'', Some ''CollgCr'', Some ''Veenker'', Some ''Crawfor'', Some ''NoRidge'',
         Some ''CollgCr'', Some ''Veenker'', Some ''Crawfor'', Some ''NoRidge'', Some
         ''CollgCr'', Some ''Veenker'', Some ''Crawfor'', Some ''NoRidge'', Some ''CollgCr'',
         Some ''Veenker'', Some ''Crawfor'', Some ''NoRidge'']),
      (''Condition1'', ObjCol [Some ''Norm'', Some ''Norm'', Some ''Feedr'', Some ''Norm'',
         Some ''Norm'', Some ''Feedr'', Some ''Norm'', Some ''Norm'', Some ''Feedr'', Some
         ''Norm'', Some ''Norm'', Some ''Feedr'', Some ''Norm'', Some ''Norm'', Some ''Feedr'',
         Some ''Norm'', Some ''Norm'', Some ''Feedr'', Some ''Norm'', Some ''Norm'']),
      (''Condition2'', ObjCol (replicate 20 (Some ''Norm''))),
      (''BldgType'', ObjCol (replicate 20 (Some ''1Fam''))),
      (''HouseStyle'', ObjCol [Some ''2Story'', Some ''1Story'', Some ''2Story'', Some
         ''1Story'', Some ''2Story'', Some ''1Story'', Some ''2Story'', Some ''1Story'', Some
         ''2Story'', Some ''1Story'', Some ''2Story'', Some ''1Story'', Some ''2Story'', Some
         ''1Story'', Some ''2Story'', Some ''1Story'', Some ''2Story'', Some ''1Story'', Some
         ''2Story'', Some ''1Story'']),
      (''OverallQual'', IntCol [7, 6, 7, 7, 8, 5, 7, 6, 7, 7, 8, 5, 7, 6, 7, 7, 8, 5, 7, 6]),
      (''RoofStyle'', ObjCol (replicate 20 (Some ''Gable''))),
      (''RoofMatl'', ObjCol (replicate 20 (Some ''CompShg''))),
      (''Exterior1st'', ObjCol [Some ''VinylSd'', Some ''MetalSd'', Some ''VinylSd'', Some
         ''VinylSd'', Some ''MetalSd'', Some ''VinylSd'', Some ''VinylSd'', Some ''MetalSd'',
         Some ''VinylSd'', Some ''VinylSd'', Some ''MetalSd'', Some ''VinylSd'', Some
         ''VinylSd'', Some ''MetalSd'', Some ''VinylSd'', Some ''VinylSd'', Some ''MetalSd'',
         Some ''VinylSd'', Some ''VinylSd'', Some ''MetalSd'']),
      (''Exterior2nd'', ObjCol [Some ''VinylSd'', Some ''MetalSd'', Some ''VinylSd'', Some
         ''VinylSd'', Some ''MetalSd'', Some ''VinylSd'', Some ''VinylSd'', Some ''MetalSd'',
         Some ''VinylSd'', Some ''VinylSd'', Some ''MetalSd'', Some ''VinylSd'', Some
         ''VinylSd'', Some ''MetalSd'', Some ''VinylSd'', Some ''VinylSd'', Some ''MetalSd'',
         Some ''VinylSd'', Some ''VinylSd'', Some ''MetalSd'']),
      (''ExterQual'', ObjCol [Some ''Gd'', Some ''TA'', Some ''Gd'', Some ''TA'', Some ''TA'',
         Some ''Gd'', Some ''TA'', Some ''Gd'', Some ''TA'', Some ''TA'', Some ''Gd'', Some
         ''TA'', Some ''Gd'', Some ''TA'', Some ''TA'', Some ''Gd'', Some ''TA'', Some ''Gd'',
         Some ''TA'', Some ''TA'']),
      (''ExterCond'', ObjCol (replicate 20 (Some ''TA''))),
      (''Foundation'', ObjCol [Some ''PConc'', Some ''CBlock'', Some ''PConc'', Some
         ''CBlock'', Some ''PConc'', Some ''CBlock'', Some ''PConc'', Some ''CBlock'', Some
         ''PConc'', Some ''CBlock'', Some ''PConc'', Some ''CBlock'', Some ''PConc'', Some
         ''CBlock'', Some ''PConc'', Some ''CBlock'', Some ''PConc'', Some ''CBlock'', Some
         ''PConc'', Some ''CBlock'']),
      (''BsmtQual'', ObjCol [Some ''Gd'', Some ''Gd'', Some ''TA'', Some ''Gd'', Some ''Gd'',
         Some ''TA'', Some ''Gd'', Some ''Gd'', Some ''TA'', Some ''Gd'', Some ''Gd'', Some
         ''TA'', Some ''Gd'', Some ''Gd'', Some ''TA'', Some ''Gd'', Some ''Gd'', Some ''TA'',
         Some ''Gd'', Some ''Gd'']),
      (''BsmtCond'', ObjCol (replicate 20 (Some ''TA''))),
      (''BsmtExposure'', ObjCol [Some ''No'', Some ''Gd'', Some ''Mn'', Some ''Av'', Some
         ''No'', Some ''Gd'', Some ''Mn'', Some ''Av'', Some ''No'', Some ''Gd'', Some ''Mn'',
         Some ''Av'', Some ''No'', Some ''Gd'', Some ''Mn'', Some ''Av'', Some ''No'', Some
         ''Gd'', Some ''Mn'', Some ''Av'']),
      (''BsmtFinType1'', ObjCol [Some ''GLQ'', Some ''ALQ'', Some ''Unf'', Some ''GLQ'', Some
         ''ALQ'', Some ''Unf'', Some ''GLQ'', Some ''ALQ'', Some ''Unf'', Some ''GLQ'', Some
         ''ALQ'', Some ''Unf'', Some ''GLQ'', Some ''ALQ'', Some ''Unf'', Some ''GLQ'', Some
         ''ALQ'', Some ''Unf'', Some ''GLQ'', Some ''ALQ'']),
      (''BsmtFinType2'', ObjCol [Some ''Unf'', None, Some ''Unf'', Some ''Unf'', Some ''Unf'',
         Some ''Unf'', Some ''Unf'', Some ''Unf'', Some ''Unf'', Some ''Unf'', Some ''Unf'', Some
         ''Unf'', Some ''Unf'', Some ''Unf'', Some ''Unf'', Some ''Unf'', Some ''Unf'', Some
         ''Unf'', Some ''Unf'', Some ''Unf'']),
      (''Heating'', ObjCol (replicate 20 (Some ''GasA''))),
      (''HeatingQC'', ObjCol [Some ''Ex'', Some ''Gd'', Some ''Ex'', Some ''Ex'', Some ''Gd'',
         Some ''Ex'', Some ''Ex'', Some ''Gd'', Some ''Ex'', Some ''Ex'', Some ''Gd'', Some
         ''Ex'', Some ''Ex'', Some ''Gd'', Some ''Ex'', Some ''Ex'', Some ''Gd'', Some ''Ex'',
         Some ''Ex'', Some ''Gd'']),
      (''CentralAir'', ObjCol [Some ''Y'', Some ''Y'', Some ''Y'', Some ''N'', Some ''Y'',
         Some ''Y'', Some ''Y'', Some ''N'', Some ''Y'', Some ''Y'', Some ''Y'', Some ''N'', Some
         ''Y'', Some ''Y'', Some ''Y'', Some ''N'', Some ''Y'', Some ''Y'', Some ''Y'', Some
         ''N'']),
      (''Electrical'', ObjCol [Some ''SBrkr'', Some ''SBrkr'', None, Some ''SBrkr'', Some
         ''SBrkr'', Some ''SBrkr'', Some ''SBrkr'', Some ''SBrkr'', Some ''SBrkr'', Some
         ''SBrkr'', Some ''SBrkr'', Some ''SBrkr'', Some ''SBrkr'', Some ''SBrkr'', Some
         ''SBrkr'', Some ''SBrkr'', Some ''SBrkr'', Some ''SBrkr'', Some ''SBrkr'', Some
         ''SBrkr'']),
      (''KitchenQual'', ObjCol [Some ''Gd'', Some ''TA'', Some ''Gd'', Some ''TA'', Some
         ''Gd'', Some ''TA'', Some ''Gd'', Some ''TA'', Some ''Gd'', Some ''TA'', Some ''Gd'',
         Some ''TA'', Some ''Gd'', Some ''TA'', Some ''Gd'', Some ''TA'', Some ''Gd'', Some
         ''TA'', Some ''Gd'', Some ''TA'']),
      (''Functional'', ObjCol (replicate 20 (Some ''Typ''))),
      (''GarageType'', ObjCol [Some ''Attchd'', Some ''Attchd'', Some ''Detchd'', Some
         ''Attchd'', Some ''Attchd'', Some ''Detchd'', Some ''Attchd'', Some ''Attchd'', Some
         ''Detchd'', Some ''Attchd'', Some ''Attchd'', Some ''Detchd'', Some ''Attchd'', Some
         ''Attchd'', Some ''Detchd'', Some ''Attchd'', Some ''Attchd'', Some ''Detchd'', Some
         ''Attchd'', Some ''Attchd'']),
      (''GarageFinish'', ObjCol [Some ''RFn'', Some ''Unf'', Some ''RFn'', Some ''Unf'', Some
         ''RFn'', Some ''Unf'', Some ''RFn'', Some ''Unf'', Some ''RFn'', Some ''Unf'', Some
         ''RFn'', Some ''Unf'', Some ''RFn'', Some ''Unf'', Some ''RFn'', Some ''Unf'', Some
         ''RFn'', Some ''Unf'', Some ''RFn'', Some ''Unf'']),
      (''GarageQual'', ObjCol (replicate 20 (Some ''TA''))),
      (''GarageCond'', ObjCol (replicate 20 (Some ''TA''))),
      (''PavedDrive'', ObjCol (replicate 20 (Some ''Y''))),
      (''PoolQC'', FloatCol (replicate 20 None)),
      (''SaleType'', ObjCol (replicate 20 (Some ''WD''))),
      (''SaleCondition'', ObjCol [Some ''Normal'', Some ''Normal'', Some ''Normal'', Some
         ''Abnorml'', Some ''Normal'', Some ''Normal'', Some ''Normal'', Some ''Normal'', Some
         ''Abnorml'', Some ''Normal'', Some ''Normal'', Some ''Normal'', Some ''Normal'', Some
         ''Abnorml'', Some ''Normal'', Some ''Normal'', Some ''Normal'', Some ''Normal'', Some
         ''Abnorml'', Some ''Normal'']),
      (''SalePrice'', IntCol [208500, 140000, 140000, 208500, 208500, 140000, 208500, 208500,
         140000, 140000, 208500, 208500, 140000, 208500, 208500, 140000, 140000, 208500, 208500,
         140000])]"

text \<open>
  The states of the global generator in the example run, and the columns a run fits its
  models on: those of the feature-selected frame, of the logistic model's training matrix
  and of the CatBoost model's training matrix.
\<close>

definition example_entropy :: "nat \<Rightarrow> nat" where
  "example_entropy k = k"

definition fitted_columns :: "run \<Rightarrow> string list \<times> string list \<times> string list" where
  "fitted_columns r =
     (columns (df_final r), columns (fit_X (best_lr_model r)), columns (fit_X (best_cat_model r)))"

section \<open>The Cleaner\<close>

lemma drop_Inr: "drop_labels ls df = Inr d \<Longrightarrow> d = filter (\<lambda>c. fst c \<notin> set ls) df"
  by (auto simp: drop_labels_def split: list.splits)

lemma drop_ok: "set ls \<subseteq> set (columns df) \<Longrightarrow> drop_labels ls df = Inr (filter (\<lambda>c. fst c \<notin> set ls) df)"
proof -
  assume "set ls \<subseteq> set (columns df)"
  then have "filter (\<lambda>l. l \<notin> set (columns df)) ls = []"
    by (auto simp: filter_empty_conv)
  then show ?thesis by (simp add: drop_labels_def)
qed

lemma drop_KeyError: "l \<in> set ls \<Longrightarrow> l \<notin> set (columns df) \<Longrightarrow> \<exists>k. drop_labels ls df = Inl (KeyError k)"
proof -
  assume "l \<in> set ls" "l \<notin> set (columns df)"
  then have "filter (\<lambda>l. l \<notin> set (columns df)) ls \<noteq> []"
    by (auto simp: filter_empty_conv)
  then show ?thesis by (cases "filter (\<lambda>l. l \<notin> set (columns df)) ls") (auto simp: drop_labels_def)
qed

lemma columns_filter_distinct: "distinct (columns df) \<Longrightarrow> distinct (columns (filter P df))"
  by (simp add: columns_def distinct_map_filter)

lemma in_columns_map_of: "n \<in> set (columns df) \<Longrightarrow> \<exists>c. map_of df n = Some c"
  using map_of_eq_None_iff [of df n] by (auto simp: columns_def)

lemma map_of_columns: "map_of df n = Some c \<Longrightarrow> n \<in> set (columns df)"
  using map_of_eq_None_iff [of df n] by (auto simp: columns_def)

lemma setitem_present:
  assumes "map_of df col = Some c"
  shows "setitem col v df = map (\<lambda>p. (fst p, if fst p = col then v else snd p)) df"
proof -
  have "col \<in> set (columns df)" using assms by (rule map_of_columns)
  then show ?thesis by (auto simp: setitem_def)
qed

lemma columns_map_snd: "columns (map (\<lambda>p. (fst p, g p)) df) = columns df"
  by (simp add: columns_def comp_def)

lemma map_of_map_snd:
  "map_of (map (\<lambda>p. (fst p, g (fst p) (snd p))) df) n = map_option (g n) (map_of df n)"
  by (induction df) auto

lemma fill_mean_result:
  "distinct (columns df) \<Longrightarrow> distinct names \<Longrightarrow> set names \<subseteq> set (columns df) \<Longrightarrow>
   fill_mean names df =
     Inr (map (\<lambda>p. (fst p, if fst p \<in> set names then fillna_mean (snd p) else snd p)) df)"
proof (induction names arbitrary: df)
  case Nil
  then show ?case by simp
next
  case (Cons n names)
  from Cons.prems obtain c where c: "map_of df n = Some c"
    using in_columns_map_of [of n df] by auto
  let ?d = "map (\<lambda>p. (fst p, if fst p = n then fillna_mean c else snd p)) df"
  have s: "setitem n (fillna_mean c) df = ?d"
    using c by (rule setitem_present)
  have cols: "columns ?d = columns df" by (rule columns_map_snd)
  have "fill_mean names ?d =
     Inr (map (\<lambda>p. (fst p, if fst p \<in> set names then fillna_mean (snd p) else snd p)) ?d)"
    using Cons.prems by (intro Cons.IH) (auto simp: cols)
  moreover have "map (\<lambda>p. (fst p, if fst p \<in> set names then fillna_mean (snd p) else snd p)) ?d
     = map (\<lambda>p. (fst p, if fst p \<in> set (n # names) then fillna_mean (snd p) else snd p)) df"
  proof -
    have "snd p = c" if "p \<in> set df" "fst p = n" for p
      using that c Cons.prems(1) map_of_is_SomeI [of df "fst p" "snd p"]
      by (cases p) (auto simp: columns_def)
    then show ?thesis using Cons.prems(2) by auto
  qed
  ultimately show ?case using c s by (simp add: getitem_def)
qed

lemma max_count_attained: "xs \<noteq> [] \<Longrightarrow> \<exists>v\<in>set xs. count_list vs v = max_count vs xs"
proof (induction xs)
  case Nil
  then show ?case by simp
next
  case (Cons x xs)
  show ?case
  proof (cases "xs = []")
    case True
    then show ?thesis by simp
  next
    case False
    with Cons.IH obtain v where "v \<in> set xs" "count_list vs v = max_count vs xs" by auto
    then show ?thesis by (cases "count_list vs x \<le> max_count vs xs") (auto simp: max_def)
  qed
qed

lemma most_frequent_Some: "vs \<noteq> [] \<Longrightarrow> \<exists>m. most_frequent vs = Some m"
proof -
  assume "vs \<noteq> []"
  then obtain v where "v \<in> set vs" "count_list vs v = max_count vs vs"
    using max_count_attained by blast
  then have "filter (\<lambda>v. count_list vs v = max_count vs vs) vs \<noteq> []"
    by (auto simp: filter_empty_conv)
  then show ?thesis
    by (cases "filter (\<lambda>v. count_list vs v = max_count vs vs) vs") (auto simp: most_frequent_def)
qed

lemma least_mem: "least m xs \<in> set (m # xs)"
  by (induction xs arbitrary: m) (auto simp: min_def)

lemma most_frequent_mem: "most_frequent vs = Some m \<Longrightarrow> m \<in> set vs"
proof -
  assume a: "most_frequent vs = Some m"
  then obtain c cs where f: "filter (\<lambda>v. count_list vs v = max_count vs vs) vs = c # cs"
    and m: "m = least c cs"
    by (auto simp: most_frequent_def split: list.splits)
  have "m \<in> set (c # cs)" unfolding m by (rule least_mem)
  then have "m \<in> set (filter (\<lambda>v. count_list vs v = max_count vs vs) vs)" by (simp only: f)
  then show ?thesis by simp
qed

lemma present_Nil_iff: "present xs = [] \<longleftrightarrow> (\<forall>x\<in>set xs. x = None)"
  by (induction xs rule: present.induct) auto

lemma set_present: "set (present xs) = {x. Some x \<in> set xs}"
  by (induction xs rule: present.induct) auto

lemma fillna_Some_no_None: "None \<notin> set (fillna (Some m) xs)"
  by (auto simp: fillna_def split: option.splits)

lemma fillna_no_None_id: "None \<notin> set xs \<Longrightarrow> fillna v xs = xs"
  by (induction xs) (auto simp: fillna_def split: option.splits)

lemma fill_most_frequent_result:
  "distinct (columns df) \<Longrightarrow> distinct names \<Longrightarrow> set names \<subseteq> set (columns df) \<Longrightarrow>
   (\<And>n c. n \<in> set names \<Longrightarrow> map_of df n = Some c \<Longrightarrow> \<exists>c'. impute_most_frequent c = Inr c') \<Longrightarrow>
   fill_most_frequent names df =
     Inr (map (\<lambda>p. (fst p, if fst p \<in> set names then imputed (snd p) else snd p)) df)"
proof (induction names arbitrary: df)
  case Nil
  then show ?case by simp
next
  case (Cons n names)
  from Cons.prems obtain c where c: "map_of df n = Some c"
    using in_columns_map_of [of n df] by auto
  with Cons.prems(4) [of n c] obtain c' where c': "impute_most_frequent c = Inr c'" by auto
  then have ic: "imputed c = c'" by (simp add: imputed_def)
  let ?d = "map (\<lambda>p. (fst p, if fst p = n then c' else snd p)) df"
  have s: "setitem n c' df = ?d"
    using c by (rule setitem_present)
  have cols: "columns ?d = columns df" by (rule columns_map_snd)
  have key: "snd p = c" if "p \<in> set df" "fst p = n" for p
    using that c Cons.prems(1) map_of_is_SomeI [of df "fst p" "snd p"]
    by (cases p) (auto simp: columns_def)
  have mo: "map_of ?d m = Some x \<Longrightarrow> m \<noteq> n \<Longrightarrow> map_of df m = Some x" for m x
    using map_of_map_snd [of "\<lambda>k v. if k = n then c' else v" df m] by auto
  have "fill_mean names ?d = fill_mean names ?d" ..
  have "fill_most_frequent names ?d =
     Inr (map (\<lambda>p. (fst p, if fst p \<in> set names then imputed (snd p) else snd p)) ?d)"
  proof (rule Cons.IH)
    show "distinct (columns ?d)" using Cons.prems(1) by (simp only: cols)
    show "distinct names" using Cons.prems(2) by simp
    show "set names \<subseteq> set (columns ?d)" using Cons.prems(3) by (simp add: cols)
    show "\<exists>c'. impute_most_frequent ca = Inr c'"
      if "m \<in> set names" "map_of ?d m = Some ca" for m ca
    proof -
      have "m \<noteq> n" using that(1) Cons.prems(2) by auto
      with that(2) have "map_of df m = Some ca" by (rule mo [rotated -1, rotated])
      with that(1) show ?thesis using Cons.prems(4) [of m ca] by simp
    qed
  qed
  moreover have "map (\<lambda>p. (fst p, if fst p \<in> set names then imputed (snd p) else snd p)) ?d
     = map (\<lambda>p. (fst p, if fst p \<in> set (n # names) then imputed (snd p) else snd p)) df"
    using Cons.prems(2) key ic by auto
  ultimately show ?case using c s c' by (simp add: getitem_def)
qed

lemma null_count_all:
  "\<forall>b\<in>set bs. b \<Longrightarrow> length (filter (\<lambda>b. b) bs) = length bs"
  by (induction bs) auto

lemma not_exceeds_present_Obj:
  assumes "\<not> exceeds (missing_percentage (ObjCol xs)) threshold" "any_null (ObjCol xs)"
  shows "present xs \<noteq> []"
proof
  assume "present xs = []"
  then have allnone: "\<forall>x\<in>set xs. x = None" by (simp add: present_Nil_iff)
  then have "null_count (ObjCol xs) = length xs"
    by (simp add: null_count_def null_count_all)
  moreover have "xs \<noteq> []" using assms(2) by (auto simp: any_null_def)
  ultimately show False using assms(1)
    by (simp add: exceeds_def missing_percentage_def threshold_def)
qed

lemma not_exceeds_present_Float:
  assumes "\<not> exceeds (missing_percentage (FloatCol xs)) threshold" "any_null (FloatCol xs)"
  shows "present xs \<noteq> []"
proof
  assume "present xs = []"
  then have allnone: "\<forall>x\<in>set xs. x = None" by (simp add: present_Nil_iff)
  then have "null_count (FloatCol xs) = length xs"
    by (simp add: null_count_def null_count_all)
  moreover have "xs \<noteq> []" using assms(2) by (auto simp: any_null_def)
  ultimately show False using assms(1)
    by (simp add: exceeds_def missing_percentage_def threshold_def)
qed

lemma impute_ok:
  assumes "\<not> exceeds (missing_percentage c) threshold" "any_null c"
  shows "\<exists>c'. impute_most_frequent c = Inr c' \<and> \<not> any_null c'"
proof (cases c)
  case (ObjCol xs)
  with assms have "present xs \<noteq> []" using not_exceeds_present_Obj by simp
  then obtain m where "most_frequent (present xs) = Some m" using most_frequent_Some by blast
  then show ?thesis using ObjCol fillna_Some_no_None [of m xs]
    by (auto simp: any_null_def)
next
  case (FloatCol xs)
  with assms have "present xs \<noteq> []" using not_exceeds_present_Float by simp
  then obtain m where "most_frequent (present xs) = Some m" using most_frequent_Some by blast
  then show ?thesis using FloatCol fillna_Some_no_None [of m xs]
    by (auto simp: any_null_def)
next
  case (IntCol xs)
  with assms show ?thesis by (simp add: any_null_def)
next
  case (BoolCol xs)
  with assms show ?thesis by (simp add: any_null_def)
qed

lemma fillna_mean_ok:
  assumes "\<not> exceeds (missing_percentage c) threshold" "is_number c"
  shows "\<not> any_null (fillna_mean c)"
proof (cases c)
  case (FloatCol xs)
  show ?thesis
  proof (cases "any_null c")
    case True
    with assms FloatCol have "present xs \<noteq> []" using not_exceeds_present_Float by simp
    then obtain m where "mean (present xs) = Some m" by (auto simp: mean_def)
    then show ?thesis using FloatCol fillna_Some_no_None [of m xs] by (auto simp: any_null_def)
  next
    case False
    then have "None \<notin> set xs" using FloatCol by (auto simp: any_null_def)
    then show ?thesis using FloatCol by (simp add: fillna_no_None_id any_null_def)
  qed
qed (use assms in \<open>auto simp: any_null_def\<close>)

lemma columns_to_drop_subset: "set (columns_to_drop df) \<subseteq> set (columns df)"
  by (auto simp: columns_to_drop_def columns_def)

lemma kept_not_exceeds:
  "p \<in> set (kept df) \<Longrightarrow> \<not> exceeds (missing_percentage (snd p)) threshold"
  by (auto simp: kept_def columns_to_drop_def)

lemma distinct_kept: "distinct (columns df) \<Longrightarrow> distinct (columns (kept df))"
  by (simp add: kept_def columns_filter_distinct)

lemma cat_null_columns_props:
  "distinct (columns d) \<Longrightarrow> distinct (cat_null_columns d)"
  "set (cat_null_columns d) \<subseteq> set (columns d)"
  by (auto simp: cat_null_columns_def cat_columns_def columns_def distinct_map_filter)

lemma num_null_columns_props:
  "distinct (columns d) \<Longrightarrow> distinct (num_null_columns d)"
  "set (num_null_columns d) \<subseteq> set (columns d)"
  by (auto simp: num_null_columns_def num_columns_def columns_def distinct_map_filter)

lemma mem_cat_null_columns:
  assumes "distinct (columns d)" "(n, c) \<in> set d"
  shows "n \<in> set (cat_null_columns d) \<longleftrightarrow> is_object c \<and> any_null c"
proof -
  have m: "map_of d n = Some c" using assms by (simp add: columns_def)
  have u: "c' = c" if "(n, c') \<in> set d" for c'
    using that assms(1) m map_of_is_SomeI [of d n c'] by (simp add: columns_def)
  have "n \<in> set (cat_columns d) \<longleftrightarrow> (\<exists>c'. (n, c') \<in> set d \<and> is_object c')"
    by (force simp: cat_columns_def)
  also have "\<dots> \<longleftrightarrow> is_object c" using u assms(2) by blast
  finally have a: "n \<in> set (cat_columns d) \<longleftrightarrow> is_object c" .
  have b: "has_null d n = any_null c" using m by (simp add: has_null_def)
  show ?thesis using a b by (simp add: cat_null_columns_def)
qed

lemma mem_num_null_columns:
  assumes "distinct (columns d)" "(n, c) \<in> set d"
  shows "n \<in> set (num_null_columns d) \<longleftrightarrow> is_number c \<and> any_null c"
proof -
  have m: "map_of d n = Some c" using assms by (simp add: columns_def)
  have u: "c' = c" if "(n, c') \<in> set d" for c'
    using that assms(1) m map_of_is_SomeI [of d n c'] by (simp add: columns_def)
  have "n \<in> set (num_columns d) \<longleftrightarrow> (\<exists>c'. (n, c') \<in> set d \<and> is_number c')"
    by (force simp: num_columns_def)
  also have "\<dots> \<longleftrightarrow> is_number c" using u assms(2) by blast
  finally have a: "n \<in> set (num_columns d) \<longleftrightarrow> is_number c" .
  have b: "has_null d n = any_null c" using m by (simp add: has_null_def)
  show ?thesis using a b by (simp add: num_null_columns_def)
qed

lemma is_number_not_object: "is_number c \<Longrightarrow> \<not> is_object c"
  by (cases c) auto

lemma clean_unfold:
  assumes "distinct (columns df)" "''Id'' \<in> set (columns df)" "''Id'' \<notin> set (columns_to_drop df)"
  shows "clean df = Inr (map (filled (kept df)) (kept df))"
proof -
  let ?d1 = "filter (\<lambda>c. fst c \<notin> set (columns_to_drop df)) df"
  let ?d2 = "kept df"
  have d1: "drop_labels (columns_to_drop df) df = Inr ?d1"
    by (rule drop_ok) (rule columns_to_drop_subset)
  have "''Id'' \<in> set (columns ?d1)" using assms(2,3) by (auto simp: columns_def)
  then have d2: "drop_labels [''Id''] ?d1 = Inr ?d2"
    using drop_ok [of "[''Id'']" ?d1] by (simp add: kept_def)
  have dist: "distinct (columns ?d2)" using assms(1) by (rule distinct_kept)
  let ?d3 = "map (\<lambda>p. (fst p, if fst p \<in> set (cat_null_columns ?d2) then imputed (snd p) else snd p)) ?d2"
  have d3: "fill_most_frequent (cat_null_columns ?d2) ?d2 = Inr ?d3"
  proof (rule fill_most_frequent_result [OF dist])
    show "distinct (cat_null_columns ?d2)" using dist by (rule cat_null_columns_props)
    show "set (cat_null_columns ?d2) \<subseteq> set (columns ?d2)" by (rule cat_null_columns_props)
    show "\<exists>c'. impute_most_frequent c = Inr c'"
      if "n \<in> set (cat_null_columns ?d2)" "map_of ?d2 n = Some c" for n c
    proof -
      have mem: "(n, c) \<in> set ?d2" using that(2) by (rule map_of_SomeD)
      then have "any_null c" using that(1) mem_cat_null_columns [OF dist mem] by simp
      moreover have "\<not> exceeds (missing_percentage c) threshold"
        using kept_not_exceeds [OF mem] by simp
      ultimately show ?thesis using impute_ok by blast
    qed
  qed
  have cols3: "columns ?d3 = columns ?d2" by (rule columns_map_snd)
  have d4: "fill_mean (num_null_columns ?d2) ?d3 =
      Inr (map (\<lambda>p. (fst p, if fst p \<in> set (num_null_columns ?d2) then fillna_mean (snd p) else snd p)) ?d3)"
  proof (rule fill_mean_result)
    show "distinct (columns ?d3)" using dist by (simp only: cols3)
    show "distinct (num_null_columns ?d2)" using dist by (rule num_null_columns_props)
    show "set (num_null_columns ?d2) \<subseteq> set (columns ?d3)"
      using num_null_columns_props(2) [of ?d2] by (simp only: cols3)
  qed
  have disj: "\<not> (fst p \<in> set (num_null_columns ?d2) \<and> fst p \<in> set (cat_null_columns ?d2))"
    if "p \<in> set ?d2" for p
  proof -
    have mem: "(fst p, snd p) \<in> set ?d2" using that by simp
    show ?thesis
      using mem_cat_null_columns [OF dist mem] mem_num_null_columns [OF dist mem]
        is_number_not_object [of "snd p"] by blast
  qed
  have "map (\<lambda>p. (fst p, if fst p \<in> set (num_null_columns ?d2) then fillna_mean (snd p) else snd p)) ?d3
      = map (filled ?d2) ?d2"
    using disj by (auto simp: filled_def)
  with d1 d2 d3 d4 show ?thesis by (simp add: clean_def)
qed

lemma clean_Inr_Id:
  assumes "clean df = Inr d"
  shows "''Id'' \<in> set (columns df) \<and> ''Id'' \<notin> set (columns_to_drop df)"
proof -
  let ?d1 = "filter (\<lambda>c. fst c \<notin> set (columns_to_drop df)) df"
  have d1: "drop_labels (columns_to_drop df) df = Inr ?d1"
    by (rule drop_ok) (rule columns_to_drop_subset)
  have "''Id'' \<in> set (columns ?d1)"
  proof (rule ccontr)
    assume "''Id'' \<notin> set (columns ?d1)"
    then obtain k where "drop_labels [''Id''] ?d1 = Inl (KeyError k)"
      using drop_KeyError [of "''Id''" "[''Id'']" ?d1] by auto
    with d1 assms show False by (simp add: clean_def)
  qed
  then show ?thesis by (auto simp: columns_def)
qed


lemma filled_no_null:
  assumes "distinct (columns d)" "p \<in> set d" "\<not> exceeds (missing_percentage (snd p)) threshold"
  shows "\<not> any_null (snd (filled d p))"
proof -
  have mem: "(fst p, snd p) \<in> set d" using assms(2) by simp
  note c = mem_cat_null_columns [OF assms(1) mem]
  note n = mem_num_null_columns [OF assms(1) mem]
  show ?thesis
  proof (cases "fst p \<in> set (num_null_columns d)")
    case True
    then show ?thesis using n fillna_mean_ok [OF assms(3)] by (simp add: filled_def)
  next
    case False
    show ?thesis
    proof (cases "fst p \<in> set (cat_null_columns d)")
      case True
      then obtain c' where "impute_most_frequent (snd p) = Inr c'" "\<not> any_null c'"
        using c impute_ok [OF assms(3)] by auto
      then show ?thesis using True False by (simp add: filled_def imputed_def)
    next
      case nc: False
      have "\<not> any_null (snd p)"
        using False nc c n by (cases "snd p") (auto simp: any_null_def)
      then show ?thesis using False nc by (simp add: filled_def)
    qed
  qed
qed

text \<open>
  Claim C1. When the Cleaner has run on a raw frame (the columns with more than 30% of
  their cells missing and \<^verbatim>\<open>Id\<close> dropped, every categorical column with a missing
  cell filled with its most frequent value, every numeric one with its mean), the cleaned
  frame has no missing cell: in every remaining column, every cell is present.
\<close>

theorem clean_no_missing:
  assumes "distinct (columns df)" "clean df = Inr dropped"
  shows "no_missing dropped"
proof -
  note id = clean_Inr_Id [OF assms(2)]
  have eq: "dropped = map (filled (kept df)) (kept df)"
    using clean_unfold [OF assms(1)] id assms(2) by simp
  have "\<not> any_null (snd (filled (kept df) p))" if "p \<in> set (kept df)" for p
    using filled_no_null [OF distinct_kept [OF assms(1)] that] kept_not_exceeds [OF that] .
  then show ?thesis unfolding eq no_missing_def by (simp add: list_all_iff)
qed

lemma columns_clean:
  assumes "distinct (columns df)" "clean df = Inr dropped"
  shows "columns dropped = columns (kept df)"
proof -
  note id = clean_Inr_Id [OF assms(2)]
  have eq: "dropped = map (filled (kept df)) (kept df)"
    using clean_unfold [OF assms(1)] id assms(2) by simp
  show ?thesis unfolding eq by (simp add: columns_def filled_def comp_def)
qed

lemma clean_raw_example: "clean raw_example = Inr cleaned_example"
  by code_simp

lemma distinct_raw_example: "distinct (columns raw_example)"
  by code_simp

text \<open>The Cleaner on the raw example.\<close>

theorem clean_no_missing_witness:
  "distinct (columns raw_example) \<and> clean raw_example = Inr cleaned_example
   \<and> no_missing cleaned_example"
  using clean_no_missing [OF distinct_raw_example clean_raw_example]
    distinct_raw_example clean_raw_example by simp

text \<open>
  Claim C2. A column of the raw frame whose share of missing cells is greater than 0.3 is
  not in the cleaned frame; \<^verbatim>\<open>Id\<close> is not in it either; every other column,
  whose share is at most 0.3, is.
\<close>

theorem clean_columns:
  assumes "distinct (columns df)" "clean df = Inr dropped"
  shows "(\<forall>p\<in>set df. exceeds (missing_percentage (snd p)) threshold
            \<longrightarrow> fst p \<notin> set (columns dropped))
       \<and> ''Id'' \<notin> set (columns dropped)
       \<and> (\<forall>p\<in>set df. \<not> exceeds (missing_percentage (snd p)) threshold \<and> fst p \<noteq> ''Id''
            \<longrightarrow> fst p \<in> set (columns dropped))"
proof -
  have c: "columns dropped = columns (kept df)" using assms by (rule columns_clean)
  have "fst p \<notin> set (columns (kept df))"
    if "p \<in> set df" "exceeds (missing_percentage (snd p)) threshold" for p
    using that by (auto simp: kept_def columns_def columns_to_drop_def)
  moreover have "''Id'' \<notin> set (columns (kept df))"
    by (auto simp: kept_def columns_def)
  moreover have "fst p \<in> set (columns (kept df))"
    if "p \<in> set df" "\<not> exceeds (missing_percentage (snd p)) threshold" "fst p \<noteq> ''Id''" for p
  proof -
    have "fst p \<notin> set (columns_to_drop df)"
    proof
      assume "fst p \<in> set (columns_to_drop df)"
      then obtain q where q: "q \<in> set df" "fst q = fst p"
        "exceeds (missing_percentage (snd q)) threshold"
        by (auto simp: columns_to_drop_def)
      have "map_of df (fst p) = Some (snd p)" "map_of df (fst q) = Some (snd q)"
        using assms(1) that(1) q(1) by (simp_all add: columns_def)
      then have "snd q = snd p" using q(2) by simp
      with q(3) that(2) show False by simp
    qed
    then have "p \<in> set (kept df)" using that by (simp add: kept_def)
    then show ?thesis by (auto simp: columns_def)
  qed
  ultimately show ?thesis unfolding c by blast
qed

theorem clean_columns_witness:
  "distinct (columns raw_example) \<and> clean raw_example = Inr cleaned_example
   \<and> exceeds (missing_percentage (ObjCol [None, None, Some ''Pave'', None])) threshold
   \<and> ''Alley'' \<notin> set (columns cleaned_example)
   \<and> ''Id'' \<notin> set (columns cleaned_example)
   \<and> \<not> exceeds (missing_percentage (FloatCol [Some 65, Some 80, None, Some 68])) threshold
   \<and> ''LotFrontage'' \<in> set (columns cleaned_example)"
proof -
  note t = clean_columns [OF distinct_raw_example clean_raw_example]
  have a: "(''Alley'', ObjCol [None, None, Some ''Pave'', None]) \<in> set raw_example"
    and l: "(''LotFrontage'', FloatCol [Some 65, Some 80, None, Some 68]) \<in> set raw_example"
    by (simp_all add: raw_example_def)
  have ea: "exceeds (missing_percentage (ObjCol [None, None, Some ''Pave'', None])) threshold"
    and el: "\<not> exceeds (missing_percentage (FloatCol [Some 65, Some 80, None, Some 68])) threshold"
    by (simp_all add: exceeds_def missing_percentage_def threshold_def null_count_def)
  from t a ea have "''Alley'' \<notin> set (columns cleaned_example)" by fastforce
  moreover from t have "''Id'' \<notin> set (columns cleaned_example)" by blast
  moreover from t l el have "''LotFrontage'' \<in> set (columns cleaned_example)" by fastforce
  ultimately show ?thesis
    using distinct_raw_example clean_raw_example ea el by blast
qed



section \<open>The Encoder\<close>

lemma same_but_refl: "list_all2 (same_but cols) df df"
  by (simp add: list_all2_refl same_but_def)

lemma same_but_trans:
  "list_all2 (same_but [col]) df d \<Longrightarrow> list_all2 (same_but rest) d d'
   \<Longrightarrow> list_all2 (same_but (col # rest)) df d'"
proof (induction df d arbitrary: d' rule: list_all2_induct)
  case Nil
  then show ?case by simp
next
  case (Cons p ps q qs)
  from Cons.prems obtain r rs where d': "d' = r # rs" "same_but rest q r"
    "list_all2 (same_but rest) qs rs"
    by (auto simp: list_all2_Cons1)
  have "same_but (col # rest) p r"
    using Cons.hyps(1) d'(2) by (auto simp: same_but_def)
  then show ?case using Cons.IH [OF d'(3)] d'(1) by simp
qed

lemma setitem_same_but:
  "col \<in> set (columns df) \<Longrightarrow> list_all2 (same_but [col]) df (setitem col v df)"
  by (simp add: setitem_def list_all2_map2 list_all2_refl same_but_def)

lemma getitem_Inr_columns: "getitem df col = Inr c \<Longrightarrow> col \<in> set (columns df)"
  by (auto simp: getitem_def map_of_columns split: option.splits)

lemma getitem_Inr_mem: "getitem df col = Inr c \<Longrightarrow> (col, c) \<in> set df"
  by (auto simp: getitem_def split: option.splits dest: map_of_SomeD)

lemma encode_ordinal_same_but:
  "encode_ordinal cols df = Inr d \<Longrightarrow> list_all2 (same_but cols) df d"
proof (induction cols arbitrary: df)
  case Nil
  then show ?case by (simp add: same_but_refl)
next
  case (Cons col rest)
  from Cons.prems obtain c c' where c: "getitem df col = Inr c"
    and c': "ordinal_encoder c = Inr c'"
    and r: "encode_ordinal rest (setitem col c' df) = Inr d"
    by (auto split: sum.splits)
  have "list_all2 (same_but [col]) df (setitem col c' df)"
    using getitem_Inr_columns [OF c] by (rule setitem_same_but)
  then show ?case using Cons.IH [OF r] by (rule same_but_trans)
qed

lemma encode_binary_same_but:
  "encode_binary cols df = Inr d \<Longrightarrow> list_all2 (same_but cols) df d"
proof (induction cols arbitrary: df)
  case Nil
  then show ?case by (simp add: same_but_refl)
next
  case (Cons col rest)
  from Cons.prems obtain c where c: "getitem df col = Inr c"
    and r: "encode_binary rest (setitem col (label_encoder c) df) = Inr d"
    by (auto split: sum.splits)
  have "list_all2 (same_but [col]) df (setitem col (label_encoder c) df)"
    using getitem_Inr_columns [OF c] by (rule setitem_same_but)
  then show ?case using Cons.IH [OF r] by (rule same_but_trans)
qed

lemma same_but_columns: "list_all2 (same_but cols) df d \<Longrightarrow> columns d = columns df"
  by (induction df d rule: list_all2_induct) (auto simp: columns_def same_but_def)

lemma same_but_map_of:
  "list_all2 (same_but cols) df d \<Longrightarrow> n \<notin> set cols \<Longrightarrow> map_of d n = map_of df n"
  by (induction df d rule: list_all2_induct) (auto simp: same_but_def)

lemma same_but_untouched:
  "list_all2 (same_but cols) df d \<Longrightarrow> \<forall>p\<in>set df. fst p \<notin> set cols \<Longrightarrow> d = df"
  by (induction df d rule: list_all2_induct) (auto simp: same_but_def)

lemma astype_int_cast_of:
  "astype_int lib d = Inr e \<Longrightarrow> list_all2 (cast_of lib) d e"
proof (induction lib d arbitrary: e rule: astype_int.induct)
  case (1 lib)
  then show ?case by simp
next
  case (2 lib name c rest)
  from "2.prems" obtain c' where c': "astype_int_col lib c = Inr c'"
    by (cases "astype_int_col lib c") simp_all
  from "2.prems" c' obtain rest' where r: "astype_int lib rest = Inr rest'"
    by (cases "astype_int lib rest") simp_all
  from "2.prems" c' r have e: "e = (name, c') # rest'" by simp
  have "list_all2 (cast_of lib) rest rest'" using c' r by (rule "2.IH")
  moreover have "cast_of lib (name, c) (name, c')" using c' by (simp add: cast_of_def)
  ultimately show ?case unfolding e by simp
qed

lemma cast_of_astype_int:
  "list_all2 (cast_of lib) d e \<Longrightarrow> astype_int lib d = Inr e"
proof (induction d e rule: list_all2_induct)
  case Nil
  then show ?case by simp
next
  case (Cons p ps q qs)
  then show ?case by (cases p; cases q) (simp add: cast_of_def)
qed

lemma all_dummies_Inr:
  "all_dummies lib df cols = Inr ds \<Longrightarrow>
   ds = concat (map (\<lambda>col. dummies lib col (the (map_of df col))) cols)
   \<and> set cols \<subseteq> set (columns df)"
proof (induction cols arbitrary: ds)
  case Nil
  then show ?case by simp
next
  case (Cons col rest)
  from Cons.prems obtain c ds' where c: "getitem df col = Inr c"
    and r: "all_dummies lib df rest = Inr ds'" and ds: "ds = dummies lib col c @ ds'"
    by (auto split: sum.splits)
  have "map_of df col = Some c" using c by (auto simp: getitem_def split: option.splits)
  then show ?case using Cons.IH [OF r] ds getitem_Inr_columns [OF c] by simp
qed

lemma get_dummies_Inr:
  assumes "get_dummies lib df cols = Inr d"
  shows "d = filter (\<lambda>c. fst c \<notin> set cols) df
           @ concat (map (\<lambda>col. dummies lib col (the (map_of df col))) cols)"
proof -
  from assms obtain ds rest where a: "all_dummies lib df cols = Inr ds"
    and b: "drop_labels cols df = Inr rest" and d: "d = rest @ ds"
    by (auto simp: get_dummies_def split: sum.splits)
  show ?thesis using all_dummies_Inr [OF a] drop_Inr [OF b] d by simp
qed

lemma categories_props: "distinct (categories vs)" "set (categories vs) = set vs"
  by (simp_all add: categories_def)

lemma astype_int_indicators:
  "astype_int lib (map (\<lambda>v. indicator col (lab v) xs v) cats)
     = Inr (map (\<lambda>v. indicator_int (col @ ''_'' @ lab v) xs v) cats)"
  by (induction cats) (simp_all add: indicator_def indicator_int_def)

lemma row_sum_indicators:
  "r < length xs \<Longrightarrow>
   row_sum (map (\<lambda>v. indicator_int (nm v) xs v) cats) r
     = Some (int (length (filter (\<lambda>v. xs ! r = Some v) cats)))"
  by (induction cats) (simp_all add: indicator_int_def)

lemma distinct_filter_eq_one:
  "distinct cats \<Longrightarrow> w \<in> set cats \<Longrightarrow> length (filter (\<lambda>v. w = v) cats) = 1"
  by (induction cats) (auto simp: filter_empty_conv)

lemma present_map_Some: "present (map Some xs) = xs"
  by (induction xs) simp_all

lemma indicators_row_sum_one:
  assumes "r < length xs" "xs ! r = Some w"
  shows "row_sum (map (\<lambda>v. indicator_int (nm v) xs v) (categories (present xs))) r = Some 1"
proof -
  have "Some w \<in> set xs" using assms nth_mem [of r xs] by simp
  then have "w \<in> set (categories (present xs))"
    by (simp add: categories_props set_present)
  then have "length (filter (\<lambda>v. w = v) (categories (present xs))) = 1"
    using categories_props(1) by (rule distinct_filter_eq_one [rotated])
  then show ?thesis using assms by (simp add: row_sum_indicators)
qed

lemma nth_Some: "r < length xs \<Longrightarrow> None \<notin> set xs \<Longrightarrow> \<exists>w. xs ! r = Some w"
  by (metis nth_mem option.exhaust)

lemma dummies_row_sum:
  assumes "\<not> any_null c" "r < col_len c"
  shows "\<exists>block. astype_int lib (dummies lib col c) = Inr block \<and> row_sum block r = Some 1"
proof (cases c)
  case (ObjCol xs)
  then have "r < length xs" "None \<notin> set xs" using assms by (auto simp: any_null_def)
  then obtain w where "xs ! r = Some w" using nth_Some by blast
  then show ?thesis using ObjCol assms(2)
    by (simp add: astype_int_indicators indicators_row_sum_one)
next
  case (FloatCol xs)
  then have "r < length xs" "None \<notin> set xs" using assms by (auto simp: any_null_def)
  then obtain w where "xs ! r = Some w" using nth_Some by blast
  then show ?thesis using FloatCol assms(2)
    by (simp add: astype_int_indicators indicators_row_sum_one)
next
  case (IntCol xs)
  have "row_sum (map (\<lambda>v. indicator_int (col @ ''_'' @ str_int lib v) (map Some xs) v)
          (categories (present (map Some xs)))) r = Some 1"
    using IntCol assms(2) by (intro indicators_row_sum_one [where w = "xs ! r"]) simp_all
  then show ?thesis using IntCol
    by (simp add: astype_int_indicators present_map_Some)
next
  case (BoolCol xs)
  have "row_sum (map (\<lambda>v. indicator_int (col @ ''_'' @ (if v then ''True'' else ''False''))
          (map Some xs) v) (categories (present (map Some xs)))) r = Some 1"
    using BoolCol assms(2) by (intro indicators_row_sum_one [where w = "xs ! r"]) simp_all
  then show ?thesis using BoolCol
    by (simp add: astype_int_indicators present_map_Some)
qed

lemma dummies_names: "p \<in> set (dummies lib col c) \<Longrightarrow> \<exists>l. fst p = col @ ''_'' @ l"
  by (cases c) (auto simp: indicator_def)

lemma underscore_name: "CHR ''_'' \<notin> set s \<Longrightarrow> col @ ''_'' @ l \<noteq> s"
  by auto

lemma one_hot_not_ord: "col \<in> set one_hot_enc_cols \<Longrightarrow> col \<notin> set ord_enc_cols"
  by (auto simp: one_hot_enc_cols_def ord_enc_cols_def)

lemma dummies_not_bin:
  assumes "p \<in> set (dummies lib col c)"
  shows "fst p \<notin> set bin_enc_cols"
proof -
  from assms obtain l where "fst p = col @ ''_'' @ l" using dummies_names by blast
  moreover have "col @ ''_'' @ l \<noteq> ''CentralAir''" by (rule underscore_name) simp
  ultimately show ?thesis by (simp add: bin_enc_cols_def)
qed

lemma encode_stages:
  assumes "encode lib df_clean = Inr encoded"
  shows "\<exists>d1 d2 d3.
           encode_ordinal ord_enc_cols df_clean = Inr d1
           \<and> get_dummies lib d1 one_hot_enc_cols = Inr d2
           \<and> encode_binary bin_enc_cols d2 = Inr d3
           \<and> encode_categories lib df_clean = Inr d3
           \<and> astype_int lib d3 = Inr encoded"
proof -
  from assms obtain d3 where d3: "encode_categories lib df_clean = Inr d3"
    and e: "astype_int lib d3 = Inr encoded"
    by (cases "encode_categories lib df_clean") (simp_all add: encode_def)
  from d3 obtain d1 where d1: "encode_ordinal ord_enc_cols df_clean = Inr d1"
    by (cases "encode_ordinal ord_enc_cols df_clean") (simp_all add: encode_categories_def)
  from d3 d1 obtain d2 where d2: "get_dummies lib d1 one_hot_enc_cols = Inr d2"
    by (cases "get_dummies lib d1 one_hot_enc_cols") (simp_all add: encode_categories_def)
  from d3 d1 d2 have b: "encode_binary bin_enc_cols d2 = Inr d3"
    by (simp add: encode_categories_def)
  show ?thesis using d1 d2 b d3 e by blast
qed

lemma get_dummies_block:
  assumes "get_dummies lib d1 cols = Inr d2" "col \<in> set cols" "map_of d1 col = Some c"
  shows "\<exists>pre post. d2 = pre @ dummies lib col c @ post"
proof -
  let ?g = "\<lambda>col. dummies lib col (the (map_of d1 col))"
  from split_list [OF assms(2)] obtain as bs where split: "cols = as @ col # bs" by blast
  have "d2 = filter (\<lambda>c. fst c \<notin> set cols) d1 @ concat (map ?g cols)"
    using assms(1) by (rule get_dummies_Inr)
  moreover have "concat (map ?g cols) = concat (map ?g as) @ dummies lib col c @ concat (map ?g bs)"
    using assms(3) by (simp add: split)
  ultimately have "d2 = (filter (\<lambda>c. fst c \<notin> set cols) d1 @ concat (map ?g as))
      @ dummies lib col c @ concat (map ?g bs)"
    by simp
  then show ?thesis by blast
qed

lemma list_all2_append3:
  assumes "list_all2 P (a @ b @ c) d"
  shows "\<exists>a' b' c'. d = a' @ b' @ c' \<and> list_all2 P a a' \<and> list_all2 P b b' \<and> list_all2 P c c'"
proof -
  from assms obtain a' r where 1: "d = a' @ r" "list_all2 P a a'" "list_all2 P (b @ c) r"
    by (auto simp: list_all2_append1)
  from 1(3) obtain b' c' where 2: "r = b' @ c'" "list_all2 P b b'" "list_all2 P c c'"
    by (auto simp: list_all2_append1)
  show ?thesis using 1 2 by blast
qed

text \<open>
  Claim C3. In the encoded frame, for every column that was one-hot expanded and every
  row, the indicator columns generated for that column sum to exactly 1, provided the
  cleaned frame has no missing cell: the encoded frame holds, side by side, the integer
  cast of the indicator columns of the column, and their sum at the row is 1.
\<close>

theorem one_hot_rows_sum_to_one:
  assumes "encode lib df_clean = Inr encoded" "no_missing df_clean"
    "col \<in> set one_hot_enc_cols" "getitem df_clean col = Inr c" "r < col_len c"
  shows "\<exists>pre block post.
           encoded = pre @ block @ post
           \<and> astype_int lib (dummies lib col c) = Inr block
           \<and> row_sum block r = Some 1"
proof -
  from encode_stages [OF assms(1)] obtain d1 d2 d3
    where d1: "encode_ordinal ord_enc_cols df_clean = Inr d1"
      and d2: "get_dummies lib d1 one_hot_enc_cols = Inr d2"
      and b: "encode_binary bin_enc_cols d2 = Inr d3"
      and e: "astype_int lib d3 = Inr encoded"
    by blast
  have c: "map_of df_clean col = Some c"
    using assms(4) by (auto simp: getitem_def split: option.splits)
  have "map_of d1 col = map_of df_clean col"
    using encode_ordinal_same_but [OF d1] one_hot_not_ord [OF assms(3)] by (rule same_but_map_of)
  with c have c1: "map_of d1 col = Some c" by simp
  from get_dummies_block [OF d2 assms(3) c1] obtain pre post
    where d2eq: "d2 = pre @ dummies lib col c @ post" by blast
  have "list_all2 (same_but bin_enc_cols) (pre @ dummies lib col c @ post) d3"
    using encode_binary_same_but [OF b] by (simp only: d2eq)
  from list_all2_append3 [OF this] obtain pre' blk post' where d3eq: "d3 = pre' @ blk @ post'"
    and blk: "list_all2 (same_but bin_enc_cols) (dummies lib col c) blk"
    by blast
  have "\<forall>p\<in>set (dummies lib col c). fst p \<notin> set bin_enc_cols"
    using dummies_not_bin by blast
  with blk have "blk = dummies lib col c" by (rule same_but_untouched)
  then have "list_all2 (cast_of lib) (pre' @ dummies lib col c @ post') encoded"
    using astype_int_cast_of [OF e] by (simp only: d3eq)
  from list_all2_append3 [OF this] obtain pre'' block post''
    where eeq: "encoded = pre'' @ block @ post''"
      and block: "list_all2 (cast_of lib) (dummies lib col c) block"
    by blast
  have cast: "astype_int lib (dummies lib col c) = Inr block"
    using block by (rule cast_of_astype_int)
  have "(col, c) \<in> set df_clean" using assms(4) by (rule getitem_Inr_mem)
  then have nn: "\<not> any_null c" using assms(2) by (auto simp: no_missing_def list_all_iff)
  from dummies_row_sum [OF nn assms(5)] obtain block'
    where "astype_int lib (dummies lib col c) = Inr block'" "row_sum block' r = Some 1"
    by blast
  with cast have "row_sum block r = Some 1" by simp
  with eeq cast show ?thesis by blast
qed

text \<open>The Cleaner and the Encoder on the seven houses.\<close>

lemma clean_houses: "clean houses = Inr houses_clean"
  by code_simp

lemma encode_houses: "encode example_lib houses_clean = Inr houses_encoded"
  by code_simp

lemma distinct_houses: "distinct (columns houses)"
  by code_simp

lemma no_missing_houses_clean: "no_missing houses_clean"
  by code_simp

lemma trunc_towards_zero:
  "\<bar>real_of_int (trunc v)\<bar> \<le> \<bar>v\<bar> \<and> \<bar>v - real_of_int (trunc v)\<bar> < 1"
proof (cases "0 \<le> v")
  case True
  then have "0 \<le> \<lfloor>v\<rfloor>" by simp
  then show ?thesis using True by (simp add: trunc_def) linarith
next
  case False
  then have "\<lceil>v\<rceil> \<le> 0" by (simp add: ceiling_le_iff)
  then show ?thesis using False by (simp add: trunc_def) linarith
qed

lemma sequence_Some: "sequence xs = Some vs \<Longrightarrow> xs = map Some vs"
  by (induction xs arbitrary: vs rule: sequence.induct) (auto split: option.splits)

lemma astype_int_col_IntCol:
  assumes "astype_int_col lib c = Inr c'"
  shows "\<exists>ys. c' = IntCol ys"
proof (cases c)
  case (ObjCol xs)
  then show ?thesis using assms by (cases "astype_int_obj lib xs") auto
next
  case (FloatCol xs)
  then show ?thesis using assms by (cases "sequence xs") auto
next
  case (IntCol xs)
  then show ?thesis using assms by auto
next
  case (BoolCol xs)
  then show ?thesis using assms by auto
qed

lemma astype_int_col_Float:
  "astype_int_col lib (FloatCol xs) = Inr c' \<Longrightarrow>
   \<exists>vs. xs = map Some vs \<and> c' = IntCol (map float_to_int64 vs)"
  by (cases "sequence xs") (auto dest: sequence_Some)

lemma in_int64_trunc: "\<bar>v\<bar> < 2 ^ 63 \<Longrightarrow> in_int64 (trunc v)"
proof -
  assume a: "\<bar>v\<bar> < 2 ^ 63"
  have "\<bar>real_of_int (trunc v)\<bar> \<le> \<bar>v\<bar>" using trunc_towards_zero by blast
  with a have "\<bar>real_of_int (trunc v)\<bar> < 2 ^ 63" by linarith
  then have "real_of_int \<bar>trunc v\<bar> < real_of_int (2 ^ 63)" by simp
  then have "\<bar>trunc v\<bar> < 2 ^ 63" by (simp only: of_int_less_iff)
  then have "- (2 ^ 63) \<le> trunc v \<and> trunc v < 2 ^ 63" by linarith
  then show ?thesis by (simp only: in_int64_def)
qed

lemma float_to_int64_cases:
  "(\<bar>v\<bar> < 2 ^ 63 \<longrightarrow> float_to_int64 v = trunc v)
   \<and> (\<not> in_int64 (trunc v) \<longrightarrow> float_to_int64 v = - (2 ^ 63))"
  using in_int64_trunc [of v] by (simp add: float_to_int64_def)

text \<open>
  Beyond the 64-bit range the cast wraps: \<^verbatim>\<open>1e19\<close> becomes the smallest 64-bit
  integer.
\<close>

lemma astype_int_col_wraps:
  "astype_int_col lib (FloatCol [Some 10000000000000000000]) = Inr (IntCol [- 9223372036854775808])"
  by (simp add: float_to_int64_def in_int64_def trunc_def)

lemma cast_of_nth:
  "list_all2 (cast_of lib) d e \<Longrightarrow> i < length d \<Longrightarrow>
   fst (e ! i) = fst (d ! i) \<and> astype_int_col lib (snd (d ! i)) = Inr (snd (e ! i))"
  by (auto simp: list_all2_conv_all_nth cast_of_def)

lemma cast_of_columns: "list_all2 (cast_of lib) d e \<Longrightarrow> columns e = columns d"
  by (induction d e rule: list_all2_induct) (auto simp: columns_def cast_of_def)

text \<open>
  Claim C7. The last step of the Encoder casts every column to integer: every column of
  the encoded frame is an integer column, and a cell of a float column becomes a 64-bit
  integer. A value below \<open>2 ^ 63\<close> in absolute value (every value with a fractional
  part is, a mean-imputed value for one) becomes its truncation towards zero: the integer
  \<open>trunc v\<close>, no larger in absolute value than \<open>v\<close> and less than 1 away from it. A value
  whose truncation has more than 64 bits becomes the smallest 64-bit integer.
\<close>

theorem astype_int_truncates:
  assumes "encode lib df_clean = Inr encoded"
  shows "\<exists>d. encode_categories lib df_clean = Inr d \<and> columns encoded = columns d
      \<and> (\<forall>p\<in>set encoded. \<exists>ys. snd p = IntCol ys)
      \<and> (\<forall>i<length d. \<forall>xs. snd (d ! i) = FloatCol xs \<longrightarrow>
            (\<exists>ys. snd (encoded ! i) = IntCol ys \<and> length ys = length xs
               \<and> (\<forall>j<length xs. \<exists>v. xs ! j = Some v \<and> ys ! j = float_to_int64 v
                     \<and> (\<bar>v\<bar> < 2 ^ 63 \<longrightarrow>
                          ys ! j = trunc v \<and> \<bar>real_of_int (trunc v)\<bar> \<le> \<bar>v\<bar>
                          \<and> \<bar>v - real_of_int (trunc v)\<bar> < 1)
                     \<and> (\<not> in_int64 (trunc v) \<longrightarrow> ys ! j = - (2 ^ 63)))))"
proof -
  from encode_stages [OF assms] obtain d
    where d: "encode_categories lib df_clean = Inr d" and e: "astype_int lib d = Inr encoded"
    by blast
  note rel = astype_int_cast_of [OF e]
  have len: "length encoded = length d" using rel by (rule list_all2_lengthD [symmetric])
  have ints: "\<exists>ys. snd p = IntCol ys" if "p \<in> set encoded" for p
  proof -
    from that obtain i where i: "i < length encoded" "p = encoded ! i"
      by (auto simp: in_set_conv_nth)
    then have "astype_int_col lib (snd (d ! i)) = Inr (snd p)"
      using cast_of_nth [OF rel, of i] len by simp
    then show ?thesis by (rule astype_int_col_IntCol)
  qed
  have floats: "\<exists>ys. snd (encoded ! i) = IntCol ys \<and> length ys = length xs
               \<and> (\<forall>j<length xs. \<exists>v. xs ! j = Some v \<and> ys ! j = float_to_int64 v
                     \<and> (\<bar>v\<bar> < 2 ^ 63 \<longrightarrow>
                          ys ! j = trunc v \<and> \<bar>real_of_int (trunc v)\<bar> \<le> \<bar>v\<bar>
                          \<and> \<bar>v - real_of_int (trunc v)\<bar> < 1)
                     \<and> (\<not> in_int64 (trunc v) \<longrightarrow> ys ! j = - (2 ^ 63)))"
    if "i < length d" "snd (d ! i) = FloatCol xs" for i xs
  proof -
    have "astype_int_col lib (FloatCol xs) = Inr (snd (encoded ! i))"
      using cast_of_nth [OF rel that(1)] that(2) by simp
    then obtain vs where vs: "xs = map Some vs"
      "snd (encoded ! i) = IntCol (map float_to_int64 vs)"
      using astype_int_col_Float by blast
    have cell: "float_to_int64 v = float_to_int64 v
          \<and> (\<bar>v\<bar> < 2 ^ 63 \<longrightarrow>
               float_to_int64 v = trunc v \<and> \<bar>real_of_int (trunc v)\<bar> \<le> \<bar>v\<bar>
               \<and> \<bar>v - real_of_int (trunc v)\<bar> < 1)
          \<and> (\<not> in_int64 (trunc v) \<longrightarrow> float_to_int64 v = - (2 ^ 63))" for v
      using float_to_int64_cases [of v] trunc_towards_zero [of v] by blast
    show ?thesis unfolding vs using cell by simp
  qed
  show ?thesis using d cast_of_columns [OF rel] ints floats by blast
qed

lemma houses_LotConfig:
  "getitem houses_clean ''LotConfig'' = Inr (ObjCol [Some ''Inside'', Some ''FR2'', Some ''Inside'',
     Some ''Corner'', Some ''FR2'', Some ''Inside'', Some ''Inside''])"
  by code_simp

lemma houses_LotConfig_block:
  "astype_int example_lib (dummies example_lib ''LotConfig'' (ObjCol [Some ''Inside'', Some ''FR2'', Some ''Inside'',
     Some ''Corner'', Some ''FR2'', Some ''Inside'', Some ''Inside'']))
   = Inr [(''LotConfig_Corner'', IntCol [0, 0, 0, 1, 0, 0, 0]),
          (''LotConfig_FR2'', IntCol [0, 1, 0, 0, 1, 0, 0]),
          (''LotConfig_Inside'', IntCol [1, 0, 1, 0, 0, 1, 1])]"
  by code_simp

theorem one_hot_rows_sum_to_one_witness:
  "encode example_lib houses_clean = Inr houses_encoded \<and> no_missing houses_clean
   \<and> ''LotConfig'' \<in> set one_hot_enc_cols
   \<and> (\<exists>pre post.
         houses_encoded = pre @ [(''LotConfig_Corner'', IntCol [0, 0, 0, 1, 0, 0, 0]),
                                 (''LotConfig_FR2'', IntCol [0, 1, 0, 0, 1, 0, 0]),
                                 (''LotConfig_Inside'', IntCol [1, 0, 1, 0, 0, 1, 1])] @ post)
   \<and> row_sum [(''LotConfig_Corner'', IntCol [0, 0, 0, 1, 0, 0, 0]),
               (''LotConfig_FR2'', IntCol [0, 1, 0, 0, 1, 0, 0]),
               (''LotConfig_Inside'', IntCol [1, 0, 1, 0, 0, 1, 1])] 3 = Some 1"
proof -
  have m: "''LotConfig'' \<in> set one_hot_enc_cols" by (simp add: one_hot_enc_cols_def)
  have r: "3 < col_len (ObjCol [Some ''Inside'', Some ''FR2'', Some ''Inside'',
     Some ''Corner'', Some ''FR2'', Some ''Inside'', Some ''Inside''])" by simp
  from one_hot_rows_sum_to_one [OF encode_houses no_missing_houses_clean m houses_LotConfig r]
  obtain pre block post where a: "houses_encoded = pre @ block @ post"
    and b: "astype_int example_lib (dummies example_lib ''LotConfig'' (ObjCol [Some ''Inside'', Some ''FR2'',
       Some ''Inside'', Some ''Corner'', Some ''FR2'', Some ''Inside'', Some ''Inside''])) = Inr block"
    and c: "row_sum block 3 = Some 1"
    by blast
  from b have "block = [(''LotConfig_Corner'', IntCol [0, 0, 0, 1, 0, 0, 0]),
                        (''LotConfig_FR2'', IntCol [0, 1, 0, 0, 1, 0, 0]),
                        (''LotConfig_Inside'', IntCol [1, 0, 1, 0, 0, 1, 1])]"
    by (simp only: houses_LotConfig_block sum.inject)
  with a c encode_houses no_missing_houses_clean m show ?thesis by blast
qed

lemma houses_LotFrontage:
  "getitem houses_clean ''LotFrontage'' = Inr (FloatCol [Some 65, Some 80, Some 68, Some 60,
     Some 84, Some 85, Some (221 / 3)])
   \<and> getitem houses_encoded ''LotFrontage'' = Inr (IntCol [65, 80, 68, 60, 84, 85, 73])"
  by code_simp

theorem astype_int_truncates_witness:
  "encode example_lib houses_clean = Inr houses_encoded
   \<and> (\<exists>d. encode_categories example_lib houses_clean = Inr d \<and> columns houses_encoded = columns d)
   \<and> getitem houses_clean ''LotFrontage'' = Inr (FloatCol [Some 65, Some 80, Some 68, Some 60,
        Some 84, Some 85, Some (221 / 3)])
   \<and> getitem houses_encoded ''LotFrontage'' = Inr (IntCol [65, 80, 68, 60, 84, 85, 73])"
  using astype_int_truncates [OF encode_houses] encode_houses houses_LotFrontage by blast

section \<open>The Feature Selector\<close>

lemma drop_labels_present: "drop_labels ls df = Inr d \<Longrightarrow> set ls \<subseteq> set (columns df)"
proof -
  assume a: "drop_labels ls df = Inr d"
  have "filter (\<lambda>l. l \<notin> set (columns df)) ls = []"
    using a by (cases "filter (\<lambda>l. l \<notin> set (columns df)) ls") (simp_all add: drop_labels_def)
  then show ?thesis by (auto simp: filter_empty_conv)
qed

lemma count_list_distinct: "distinct xs \<Longrightarrow> count_list xs x = (if x \<in> set xs then 1 else 0)"
  by (induction xs) auto

lemma count_list_append: "count_list (xs @ ys) x = count_list xs x + count_list ys x"
  by (induction xs) auto

lemma count_list_not_mem: "x \<notin> set xs \<Longrightarrow> count_list xs x = 0"
  by (induction xs) auto

lemma count_columns_filter:
  "(\<And>p. fst p = s \<Longrightarrow> P p) \<Longrightarrow>
   count_list (columns (filter P df)) s = count_list (columns df) s"
  by (induction df) (auto simp: columns_def)

lemma one_hot_not_target: "''SalePrice'' \<notin> set one_hot_enc_cols"
  by (simp add: one_hot_enc_cols_def)

lemma all_dummies_names:
  "p \<in> set (concat (map (\<lambda>col. dummies lib col (g col)) cols)) \<Longrightarrow>
   \<exists>col l. fst p = col @ ''_'' @ l"
  using dummies_names by fastforce

lemma in_columns_obtain: "n \<in> set (columns df) \<Longrightarrow> \<exists>p\<in>set df. fst p = n"
  by (auto simp: columns_def)

lemma get_dummies_count_target:
  assumes "get_dummies lib d1 one_hot_enc_cols = Inr d2"
  shows "count_list (columns d2) ''SalePrice'' = count_list (columns d1) ''SalePrice''"
proof -
  let ?ds = "concat (map (\<lambda>col. dummies lib col (the (map_of d1 col))) one_hot_enc_cols)"
  have d2: "d2 = filter (\<lambda>c. fst c \<notin> set one_hot_enc_cols) d1 @ ?ds"
    using assms by (rule get_dummies_Inr)
  have "''SalePrice'' \<notin> set (columns ?ds)"
  proof
    assume "''SalePrice'' \<in> set (columns ?ds)"
    then obtain p where "p \<in> set ?ds" "fst p = ''SalePrice''"
      using in_columns_obtain by blast
    then obtain col l where "''SalePrice'' = col @ ''_'' @ l"
      using all_dummies_names [of p lib "\<lambda>col. the (map_of d1 col)" one_hot_enc_cols] by auto
    moreover have "col @ ''_'' @ l \<noteq> ''SalePrice''" by (rule underscore_name) simp
    ultimately show False by simp
  qed
  then have "count_list (columns ?ds) ''SalePrice'' = 0" by (rule count_list_not_mem)
  moreover have "count_list (columns (filter (\<lambda>c. fst c \<notin> set one_hot_enc_cols) d1)) ''SalePrice''
      = count_list (columns d1) ''SalePrice''"
    by (rule count_columns_filter) (simp add: one_hot_not_target)
  ultimately show ?thesis unfolding d2 by (simp add: columns_def count_list_append)
qed

lemma encode_count_target:
  assumes "encode lib df_clean = Inr encoded"
  shows "count_list (columns encoded) ''SalePrice'' = count_list (columns df_clean) ''SalePrice''"
proof -
  from encode_stages [OF assms] obtain d1 d2 d3
    where d1: "encode_ordinal ord_enc_cols df_clean = Inr d1"
      and d2: "get_dummies lib d1 one_hot_enc_cols = Inr d2"
      and b: "encode_binary bin_enc_cols d2 = Inr d3"
      and e: "astype_int lib d3 = Inr encoded"
    by blast
  have "columns encoded = columns d3" using astype_int_cast_of [OF e] by (rule cast_of_columns)
  moreover have "columns d3 = columns d2"
    using encode_binary_same_but [OF b] by (rule same_but_columns)
  moreover have "columns d1 = columns df_clean"
    using encode_ordinal_same_but [OF d1] by (rule same_but_columns)
  ultimately show ?thesis using get_dummies_count_target [OF d2] by simp
qed

lemma select_names: "select df ls = Inr r \<Longrightarrow> set (columns r) \<subseteq> set ls"
proof (induction ls arbitrary: r)
  case Nil
  then show ?case by (simp add: columns_def)
next
  case (Cons l ls)
  from Cons.prems obtain c cs where f: "filter (\<lambda>c. fst c = l) df = c # cs"
    by (cases "filter (\<lambda>c. fst c = l) df") simp_all
  from Cons.prems f obtain rest where rest: "select df ls = Inr rest"
    by (cases "select df ls") simp_all
  from Cons.prems f rest have r: "r = (c # cs) @ rest" by simp
  have "set (columns (c # cs)) \<subseteq> {l}"
  proof -
    have "set (c # cs) \<subseteq> {p. fst p = l}" using f [symmetric] by (simp only: set_filter) blast
    then show ?thesis by (auto simp: columns_def)
  qed
  then show ?case using Cons.IH [OF rest] unfolding r by (auto simp: columns_def)
qed

lemma select_single: "select df [l] = Inr r \<Longrightarrow> r = filter (\<lambda>c. fst c = l) df"
  by (cases "filter (\<lambda>c. fst c = l) df") simp_all

lemma feature_importance_names:
  assumes "feature_importance lib entropy encoded = Inr fi"
  shows "\<exists>features target importance.
           feature_matrix encoded = Inr features
           \<and> getitem encoded ''SalePrice'' = Inr target
           \<and> forest_importances lib 1 features target = Inr importance
           \<and> length importance = length features
           \<and> fi = sort_values_desc (zip (columns features) importance)"
proof -
  from assms obtain features where f: "feature_matrix encoded = Inr features"
    by (cases "feature_matrix encoded") (simp_all add: feature_importance_def)
  from assms f obtain target where t: "getitem encoded ''SalePrice'' = Inr target"
    by (cases "getitem encoded ''SalePrice''") (simp_all add: feature_importance_def)
  from assms f t obtain importance
    where i: "forest_importances lib 1 features target = Inr importance"
    by (cases "forest_importances lib 1 features target")
       (simp_all add: feature_importance_def check_random_state_def)
  from assms f t i have "length importance = length features"
    "fi = sort_values_desc (zip (columns features) importance)"
    by (simp_all add: feature_importance_def check_random_state_def split: if_splits)
  with f t i show ?thesis by blast
qed

lemma feature_selection_Inr:
  assumes "feature_selection lib entropy encoded = Inr (selected, final)"
  shows "\<exists>fi chosen target.
           feature_importance lib entropy encoded = Inr fi
           \<and> selected = map fst (filter (\<lambda>p. snd p > 0.001) fi)
           \<and> select encoded selected = Inr chosen
           \<and> select encoded [''SalePrice''] = Inr target
           \<and> final = chosen @ target"
proof -
  from assms obtain fi where fi: "feature_importance lib entropy encoded = Inr fi"
    by (cases "feature_importance lib entropy encoded") (simp_all add: feature_selection_def)
  let ?sel = "map fst (filter (\<lambda>p. snd p > 0.001) fi)"
  from assms fi obtain chosen where c: "select encoded ?sel = Inr chosen"
    by (cases "select encoded ?sel") (simp_all add: feature_selection_def)
  from assms fi c obtain target where t: "select encoded [''SalePrice''] = Inr target"
    by (cases "select encoded [''SalePrice'']") (simp_all add: feature_selection_def Let_def)
  from assms fi c t have "selected = ?sel" "final = chosen @ target"
    by (simp_all add: feature_selection_def Let_def)
  with fi c t show ?thesis by blast
qed

lemma set_sort_values_desc: "set (sort_values_desc s) = set s"
  by (simp add: sort_values_desc_def)

text \<open>
  Claim C6. Feature selection is deterministic: the forest is seeded with
  \<^verbatim>\<open>random_state=1\<close>, so whatever the state of the global generator, two runs on the
  same encoded frame select the same columns (and build the same frame); and the selected
  columns are exactly those whose importance is greater than 0.001.
\<close>

theorem feature_selection_deterministic:
  "feature_selection lib entropy1 encoded = feature_selection lib entropy2 encoded
   \<and> (\<forall>selected final.
         feature_selection lib entropy1 encoded = Inr (selected, final) \<longrightarrow>
         (\<exists>features target importance.
            feature_matrix encoded = Inr features
            \<and> getitem encoded ''SalePrice'' = Inr target
            \<and> forest_importances lib 1 features target = Inr importance
            \<and> length importance = length features
            \<and> set selected
                = {fst p |p. p \<in> set (zip (columns features) importance) \<and> snd p > 0.001}))"
proof -
  have "check_random_state (Some 1) entropy1 = check_random_state (Some 1) entropy2"
    by (simp add: check_random_state_def)
  then have same: "feature_importance lib entropy1 encoded = feature_importance lib entropy2 encoded"
    unfolding feature_importance_def by (rule arg_cong)
  then have det: "feature_selection lib entropy1 encoded = feature_selection lib entropy2 encoded"
    by (simp add: feature_selection_def)
  have sel: "\<exists>features target importance.
            feature_matrix encoded = Inr features
            \<and> getitem encoded ''SalePrice'' = Inr target
            \<and> forest_importances lib 1 features target = Inr importance
            \<and> length importance = length features
            \<and> set selected
                = {fst p |p. p \<in> set (zip (columns features) importance) \<and> snd p > 0.001}"
    if "feature_selection lib entropy1 encoded = Inr (selected, final)" for selected final
  proof -
    from feature_selection_Inr [OF that] obtain fi
      where fi: "feature_importance lib entropy1 encoded = Inr fi"
        and s: "selected = map fst (filter (\<lambda>p. snd p > 0.001) fi)"
      by blast
    from feature_importance_names [OF fi] obtain features target importance
      where f: "feature_matrix encoded = Inr features"
        and t: "getitem encoded ''SalePrice'' = Inr target"
        and i: "forest_importances lib 1 features target = Inr importance"
        and l: "length importance = length features"
        and z: "fi = sort_values_desc (zip (columns features) importance)"
      by blast
    have "set selected = {fst p |p. p \<in> set fi \<and> snd p > 0.001}"
      unfolding s by force
    then have "set selected
        = {fst p |p. p \<in> set (zip (columns features) importance) \<and> snd p > 0.001}"
      by (simp only: z set_sort_values_desc)
    with f t i l show ?thesis by blast
  qed
  from det sel show ?thesis by blast
qed

lemma select_houses: "feature_selection example_lib 0 houses_encoded
    = Inr ([''LotFrontage'', ''LotShape'', ''ExterQual''], houses_final)"
  by code_simp

text \<open>The Feature Selector on the seven houses, with two states of the generator.\<close>

theorem feature_selection_deterministic_witness:
  "feature_selection example_lib 0 houses_encoded = feature_selection example_lib 7 houses_encoded
   \<and> feature_selection example_lib 0 houses_encoded
       = Inr ([''LotFrontage'', ''LotShape'', ''ExterQual''], houses_final)
   \<and> (\<exists>features target importance.
         feature_matrix houses_encoded = Inr features
         \<and> getitem houses_encoded ''SalePrice'' = Inr target
         \<and> forest_importances example_lib 1 features target = Inr importance
         \<and> set [''LotFrontage'', ''LotShape'', ''ExterQual'']
             = {fst p |p. p \<in> set (zip (columns features) importance) \<and> snd p > 0.001})"
proof -
  note t = feature_selection_deterministic [of example_lib 0 houses_encoded 7]
  from t have "feature_selection example_lib 0 houses_encoded
      = feature_selection example_lib 7 houses_encoded" by blast
  moreover from t select_houses have "\<exists>features target importance.
         feature_matrix houses_encoded = Inr features
         \<and> getitem houses_encoded ''SalePrice'' = Inr target
         \<and> forest_importances example_lib 1 features target = Inr importance
         \<and> set [''LotFrontage'', ''LotShape'', ''ExterQual'']
             = {fst p |p. p \<in> set (zip (columns features) importance) \<and> snd p > 0.001}"
    by blast
  ultimately show ?thesis using select_houses by blast
qed

text \<open>
  A target missing in more than 30% of the rows is a sparse column like any other: the
  Cleaner drops it, and its cleaned frame has no \<^verbatim>\<open>SalePrice\<close>.
\<close>

theorem sparse_target_dropped:
  "''SalePrice'' \<in> set (columns sparse_target_example)
   \<and> clean sparse_target_example = Inr [(''LotArea'', IntCol [8450, 9600, 11250, 9550])]
   \<and> ''SalePrice'' \<notin> set (columns [(''LotArea'', IntCol [8450, 9600, 11250, 9550])])"
  by code_simp

lemma kept_target_iff:
  assumes "distinct (columns df)"
  shows "''SalePrice'' \<in> set (columns (kept df)) \<longleftrightarrow>
         (\<exists>c. (''SalePrice'', c) \<in> set df \<and> \<not> exceeds (missing_percentage c) threshold)"
proof
  assume "''SalePrice'' \<in> set (columns (kept df))"
  then obtain p where p: "p \<in> set (kept df)" "fst p = ''SalePrice''"
    using in_columns_obtain by blast
  then have "p \<in> set df" by (simp add: kept_def)
  moreover have "\<not> exceeds (missing_percentage (snd p)) threshold"
    using p(1) by (rule kept_not_exceeds)
  moreover have "p = (''SalePrice'', snd p)" using p(2) by (simp add: prod_eq_iff)
  ultimately have "(''SalePrice'', snd p) \<in> set df
      \<and> \<not> exceeds (missing_percentage (snd p)) threshold"
    by simp
  then show "\<exists>c. (''SalePrice'', c) \<in> set df \<and> \<not> exceeds (missing_percentage c) threshold"
    by blast
next
  assume "\<exists>c. (''SalePrice'', c) \<in> set df \<and> \<not> exceeds (missing_percentage c) threshold"
  then obtain c where c: "(''SalePrice'', c) \<in> set df"
    "\<not> exceeds (missing_percentage c) threshold" by blast
  have "''SalePrice'' \<notin> set (columns_to_drop df)"
  proof
    assume "''SalePrice'' \<in> set (columns_to_drop df)"
    then obtain q where q: "q \<in> set df" "fst q = ''SalePrice''"
      "exceeds (missing_percentage (snd q)) threshold"
      by (auto simp: columns_to_drop_def)
    have "map_of df ''SalePrice'' = Some c" "map_of df (fst q) = Some (snd q)"
      using assms c(1) q(1) by (simp_all add: columns_def)
    then have "snd q = c" using q(2) by simp
    with q(3) c(2) show False by simp
  qed
  then have "(''SalePrice'', c) \<in> set (kept df)" using c(1) by (simp add: kept_def)
  then show "''SalePrice'' \<in> set (columns (kept df))" by (force simp: columns_def)
qed

text \<open>
  Without \<^verbatim>\<open>SalePrice\<close> in the encoded frame, the Feature Selector raises the
  KeyError of \<^verbatim>\<open>df_encoded.drop('SalePrice', axis=1)\<close>.
\<close>

lemma feature_selection_KeyError:
  assumes "''SalePrice'' \<notin> set (columns encoded)"
  shows "feature_selection lib entropy encoded = Inl (KeyError ''SalePrice'')"
proof -
  have "feature_matrix encoded = Inl (KeyError ''SalePrice'')"
    using assms by (simp add: feature_matrix_def drop_labels_def)
  then have "feature_importance lib entropy encoded = Inl (KeyError ''SalePrice'')"
    by (simp add: feature_importance_def)
  then show ?thesis by (simp add: feature_selection_def)
qed

text \<open>
  Claim C10, as the code has it. The Cleaner keeps \<^verbatim>\<open>SalePrice\<close> exactly when the
  raw frame has it with at most 30% of its cells missing; the Encoder keeps it as it finds
  it; and in a run that reaches the feature-selected frame, \<^verbatim>\<open>SalePrice\<close> is in the
  cleaned, the encoded and the feature-selected frame, is not in the feature matrix the
  importances are computed on, is never among the selected features, and occurs exactly
  once in the feature-selected frame.
\<close>

theorem target_preserved:
  assumes "distinct (columns df)" "clean df = Inr dropped" "encode lib dropped = Inr encoded"
  shows "(''SalePrice'' \<in> set (columns dropped) \<longleftrightarrow>
           (\<exists>c. (''SalePrice'', c) \<in> set df \<and> \<not> exceeds (missing_percentage c) threshold))
       \<and> count_list (columns encoded) ''SalePrice'' = count_list (columns dropped) ''SalePrice''
       \<and> (\<forall>selected final.
             feature_selection lib entropy encoded = Inr (selected, final) \<longrightarrow>
               ''SalePrice'' \<in> set (columns dropped)
               \<and> ''SalePrice'' \<in> set (columns encoded)
               \<and> ''SalePrice'' \<in> set (columns final)
               \<and> (\<exists>features. feature_matrix encoded = Inr features
                     \<and> ''SalePrice'' \<notin> set (columns features))
               \<and> ''SalePrice'' \<notin> set selected
               \<and> count_list (columns final) ''SalePrice'' = 1)"
proof -
  have cols: "columns dropped = columns (kept df)" using assms(1,2) by (rule columns_clean)
  have first: "''SalePrice'' \<in> set (columns dropped) \<longleftrightarrow>
           (\<exists>c. (''SalePrice'', c) \<in> set df \<and> \<not> exceeds (missing_percentage c) threshold)"
    unfolding cols using assms(1) by (rule kept_target_iff)
  have same: "count_list (columns encoded) ''SalePrice'' = count_list (columns dropped) ''SalePrice''"
    using assms(3) by (rule encode_count_target)
  have third: "''SalePrice'' \<in> set (columns dropped)
               \<and> ''SalePrice'' \<in> set (columns encoded)
               \<and> ''SalePrice'' \<in> set (columns final)
               \<and> (\<exists>features. feature_matrix encoded = Inr features
                     \<and> ''SalePrice'' \<notin> set (columns features))
               \<and> ''SalePrice'' \<notin> set selected
               \<and> count_list (columns final) ''SalePrice'' = 1"
    if sel: "feature_selection lib entropy encoded = Inr (selected, final)" for selected final
  proof -
    from feature_selection_Inr [OF sel] obtain fi chosen target
      where fi: "feature_importance lib entropy encoded = Inr fi"
        and s: "selected = map fst (filter (\<lambda>p. snd p > 0.001) fi)"
        and c: "select encoded selected = Inr chosen"
        and t: "select encoded [''SalePrice''] = Inr target"
        and final: "final = chosen @ target"
      by blast
    from feature_importance_names [OF fi] obtain features importance
      where f: "feature_matrix encoded = Inr features"
        and z: "fi = sort_values_desc (zip (columns features) importance)"
      by blast
    have f': "drop_labels [''SalePrice''] encoded = Inr features"
      using f by (simp add: feature_matrix_def)
    have enc: "''SalePrice'' \<in> set (columns encoded)"
      using drop_labels_present [OF f'] by simp
    have "distinct (columns dropped)" using distinct_kept [OF assms(1)] cols by simp
    then have cnt: "count_list (columns dropped) ''SalePrice''
        = (if ''SalePrice'' \<in> set (columns dropped) then 1 else 0)"
      by (rule count_list_distinct)
    have "count_list (columns encoded) ''SalePrice'' \<noteq> 0"
      using enc by (simp add: count_list_0_iff)
    with same cnt have dr: "''SalePrice'' \<in> set (columns dropped)"
      and one: "count_list (columns encoded) ''SalePrice'' = 1"
      by (simp_all split: if_splits)
    have feat: "''SalePrice'' \<notin> set (columns features)"
      using drop_Inr [OF f'] by (auto simp: columns_def)
    have "set selected \<subseteq> set (columns features)"
    proof
      fix n assume "n \<in> set selected"
      then obtain v where "(n, v) \<in> set fi" unfolding s by auto
      then have "(n, v) \<in> set (zip (columns features) importance)"
        by (simp only: z set_sort_values_desc)
      then show "n \<in> set (columns features)" by (rule set_zip_leftD)
    qed
    with feat have nsel: "''SalePrice'' \<notin> set selected" by blast
    have "set (columns chosen) \<subseteq> set selected" using c by (rule select_names)
    with nsel have "count_list (columns chosen) ''SalePrice'' = 0"
      by (intro count_list_not_mem) blast
    moreover have "count_list (columns target) ''SalePrice''
        = count_list (columns encoded) ''SalePrice''"
      unfolding select_single [OF t] by (rule count_columns_filter) simp
    ultimately have fin: "count_list (columns final) ''SalePrice'' = 1"
      using one unfolding final by (simp add: columns_def count_list_append)
    then have "''SalePrice'' \<in> set (columns final)"
      using count_list_0_iff [of "columns final" "''SalePrice''"] by simp
    with dr enc f feat nsel fin show ?thesis by blast
  qed
  from first same third show ?thesis by blast
qed

theorem target_preserved_witness:
  "distinct (columns houses) \<and> clean houses = Inr houses_clean
   \<and> encode example_lib houses_clean = Inr houses_encoded
   \<and> feature_selection example_lib 0 houses_encoded
       = Inr ([''LotFrontage'', ''LotShape'', ''ExterQual''], houses_final)
   \<and> ''SalePrice'' \<in> set (columns houses_clean)
   \<and> ''SalePrice'' \<in> set (columns houses_encoded)
   \<and> ''SalePrice'' \<notin> set [''LotFrontage'', ''LotShape'', ''ExterQual'']
   \<and> count_list (columns houses_final) ''SalePrice'' = 1"
  using target_preserved [OF distinct_houses clean_houses encode_houses, of 0] select_houses
    distinct_houses clean_houses encode_houses
  by blast

section \<open>The Trainer\<close>

lemma best_of_mem: "best_of score b cs = Some (k, s) \<Longrightarrow> b = Some (k, s) \<or> k \<in> set cs"
proof (induction cs arbitrary: b)
  case Nil
  then show ?case by simp
next
  case (Cons c cs)
  let ?b = "case score c of
              None \<Rightarrow> b
            | Some s \<Rightarrow>
                (case b of
                   None \<Rightarrow> Some (c, s)
                 | Some (c', s') \<Rightarrow> if s > s' then Some (c, s) else Some (c', s'))"
  from Cons.prems have "best_of score ?b cs = Some (k, s)" by simp
  from Cons.IH [OF this] have "?b = Some (k, s) \<or> k \<in> set cs" .
  moreover have "b = Some (k, s) \<or> k = c" if "?b = Some (k, s)"
    using that by (cases "score c"; cases b) (auto split: if_splits)
  ultimately show ?case by auto
qed

lemma combinations_keys: "k \<in> set (combinations g) \<Longrightarrow> map fst k = map fst g"
  by (induction g arbitrary: k rule: combinations.induct) auto

lemma parameter_grid_keys:
  assumes "k \<in> set (parameter_grid g)"
  shows "set (map fst k) = set (map fst g)"
proof -
  have "map fst k = map fst (sort_key fst g)"
    using assms unfolding parameter_grid_def by (rule combinations_keys)
  then show ?thesis by simp
qed

lemma grid_search_Inr:
  assumes "grid_search lib family est grid cv X y entropy = Inr best"
  shows "best \<in> set (parameter_grid grid)"
proof -
  let ?score = "\<lambda>params. cv_score lib family (set_params est params) cv X y entropy"
  from assms have cv: "check_cv family cv y = None"
    by (cases "check_cv family cv y") (simp_all add: grid_search_def)
  from assms cv obtain k s where b: "best_of ?score None (parameter_grid grid) = Some (k, s)"
    by (cases "best_of ?score None (parameter_grid grid)") (auto simp: grid_search_def)
  from assms cv b have "best = k"
    by (cases "fit_error lib family (set_params est k) X y") (simp_all add: grid_search_def)
  then show ?thesis using best_of_mem [OF b] by simp
qed

lemma refit_Inr:
  assumes "refit lib family est grid cv extra X y entropy = Inr m"
  shows "estimator m = family \<and> fit_X m = X \<and> fit_y m = y
       \<and> (\<exists>best\<in>set (parameter_grid grid). params m = best @ extra)"
proof -
  from assms obtain best where b: "grid_search lib family est grid cv X y entropy = Inr best"
    by (cases "grid_search lib family est grid cv X y entropy") (simp_all add: refit_def)
  with assms have "m = \<lparr>estimator = family, params = best @ extra, fit_X = X, fit_y = y\<rparr>"
    by (cases "fit_error lib family (best @ extra) X y") (simp_all add: refit_def)
  then show ?thesis using grid_search_Inr [OF b] by auto
qed

lemma trainer_Inr:
  assumes "trainer lib entropy final dropped = Inr (s, lr, rf, xgb, s01, cat)"
  shows "split_dataset lib (entropy 0) final ''SalePrice'' = Inr s
       \<and> refit lib LogisticRegression estimator_lr param_grid_lr 5 []
            (X_train s) (y_train s) (entropy 1) = Inr lr
       \<and> refit lib RandomForestRegressor [] param_grid_rf 5 []
            (X_train s) (y_train s) (entropy 2) = Inr rf
       \<and> refit lib XGBRegressor [] param_grid_xgb 5 []
            (X_train s) (y_train s) (entropy 3) = Inr xgb
       \<and> split_dataset lib (entropy 4) dropped ''SalePrice'' = Inr s01
       \<and> refit lib CatBoostRegressor (estimator_cat (X_train s01)) param_grid_cat 3
            [(''cat_features'', PIndices (categorical_features_indices (X_train s01)))]
            (X_train s01) (y_train s01) (entropy 5) = Inr cat"
proof -
  from assms obtain s' where 1: "split_dataset lib (entropy 0) final ''SalePrice'' = Inr s'"
    by (cases "split_dataset lib (entropy 0) final ''SalePrice''") (simp_all add: trainer_def)
  from assms 1 obtain lr' where 2: "refit lib LogisticRegression estimator_lr param_grid_lr 5 []
            (X_train s') (y_train s') (entropy 1) = Inr lr'"
    by (cases "refit lib LogisticRegression estimator_lr param_grid_lr 5 []
            (X_train s') (y_train s') (entropy 1)") (simp_all add: trainer_def)
  from assms 1 2 obtain rf' where 3: "refit lib RandomForestRegressor [] param_grid_rf 5 []
            (X_train s') (y_train s') (entropy 2) = Inr rf'"
    by (cases "refit lib RandomForestRegressor [] param_grid_rf 5 []
            (X_train s') (y_train s') (entropy 2)") (simp_all add: trainer_def)
  from assms 1 2 3 obtain xgb' where 4: "refit lib XGBRegressor [] param_grid_xgb 5 []
            (X_train s') (y_train s') (entropy 3) = Inr xgb'"
    by (cases "refit lib XGBRegressor [] param_grid_xgb 5 []
            (X_train s') (y_train s') (entropy 3)") (simp_all add: trainer_def)
  from assms 1 2 3 4 obtain t where 5: "split_dataset lib (entropy 4) dropped ''SalePrice'' = Inr t"
    by (cases "split_dataset lib (entropy 4) dropped ''SalePrice''") (simp_all add: trainer_def)
  from assms 1 2 3 4 5 obtain cat'
    where 6: "refit lib CatBoostRegressor (estimator_cat (X_train t)) param_grid_cat 3
            [(''cat_features'', PIndices (categorical_features_indices (X_train t)))]
            (X_train t) (y_train t) (entropy 5) = Inr cat'"
    by (cases "refit lib CatBoostRegressor (estimator_cat (X_train t)) param_grid_cat 3
            [(''cat_features'', PIndices (categorical_features_indices (X_train t)))]
            (X_train t) (y_train t) (entropy 5)") (simp_all add: trainer_def)
  from assms 1 2 3 4 5 6 have "s = s'" "lr = lr'" "rf = rf'" "xgb = xgb'" "s01 = t" "cat = cat'"
    by (simp_all add: trainer_def)
  with 1 2 3 4 5 6 show ?thesis by simp
qed

lemma map_of_absent: "k \<notin> set (map fst kv) \<Longrightarrow> map_of kv k = None"
  by (simp add: map_of_eq_None_iff)

text \<open>
  Claim C9. Each final model is built from the best grid parameters only. The solver
  \<^verbatim>\<open>liblinear\<close> of the logistic model and the loss \<^verbatim>\<open>RMSE\<close> of the
  categorical-aware model are arguments of the estimator the grid search copies, not of
  the grid: the final models do not get them and have the library's defaults there. The
  categorical feature indices are given again to the final categorical-aware model.
\<close>

theorem final_models_use_grid_params_only:
  assumes "trainer lib entropy final dropped = Inr (s, lr, rf, xgb, s01, cat)"
  shows "params lr \<in> set (parameter_grid param_grid_lr)
       \<and> params rf \<in> set (parameter_grid param_grid_rf)
       \<and> params xgb \<in> set (parameter_grid param_grid_xgb)
       \<and> (\<exists>best\<in>set (parameter_grid param_grid_cat).
             params cat
               = best @ [(''cat_features'', PIndices (categorical_features_indices (X_train s01)))])
       \<and> map_of (set_params estimator_lr (params lr)) ''solver'' = Some (PStr ''liblinear'')
       \<and> map_of (params lr) ''solver'' = None
       \<and> get_param lib lr ''solver'' = map_of (defaults lib LogisticRegression) ''solver''
       \<and> map_of (estimator_cat (X_train s01)) ''loss_function'' = Some (PStr ''RMSE'')
       \<and> map_of (params cat) ''loss_function'' = None
       \<and> get_param lib cat ''loss_function''
           = map_of (defaults lib CatBoostRegressor) ''loss_function''
       \<and> map_of (params cat) ''cat_features''
           = Some (PIndices (categorical_features_indices (X_train s01)))"
proof -
  note t = trainer_Inr [OF assms]
  from t have "refit lib LogisticRegression estimator_lr param_grid_lr 5 []
            (X_train s) (y_train s) (entropy 1) = Inr lr" by blast
  from refit_Inr [OF this] have lr: "params lr \<in> set (parameter_grid param_grid_lr)"
    and lre: "estimator lr = LogisticRegression" by auto
  from t have "refit lib RandomForestRegressor [] param_grid_rf 5 []
            (X_train s) (y_train s) (entropy 2) = Inr rf" by blast
  from refit_Inr [OF this] have rf: "params rf \<in> set (parameter_grid param_grid_rf)" by auto
  from t have "refit lib XGBRegressor [] param_grid_xgb 5 []
            (X_train s) (y_train s) (entropy 3) = Inr xgb" by blast
  from refit_Inr [OF this] have xgb: "params xgb \<in> set (parameter_grid param_grid_xgb)" by auto
  let ?idx = "PIndices (categorical_features_indices (X_train s01))"
  from t have "refit lib CatBoostRegressor (estimator_cat (X_train s01)) param_grid_cat 3
            [(''cat_features'', ?idx)] (X_train s01) (y_train s01) (entropy 5) = Inr cat" by blast
  from refit_Inr [OF this] obtain best where best: "best \<in> set (parameter_grid param_grid_cat)"
    and cat: "params cat = best @ [(''cat_features'', ?idx)]"
    and cate: "estimator cat = CatBoostRegressor" by auto
  have "set (map fst (params lr)) = set (map fst param_grid_lr)"
    using lr by (rule parameter_grid_keys)
  then have "''solver'' \<notin> set (map fst (params lr))" by (simp add: param_grid_lr_def)
  then have lr_solver: "map_of (params lr) ''solver'' = None" by (rule map_of_absent)
  have search_solver: "map_of (set_params estimator_lr (params lr)) ''solver'' = Some (PStr ''liblinear'')"
    using lr_solver \<open>''solver'' \<notin> set (map fst (params lr))\<close>
    by (simp add: set_params_def estimator_lr_def map_add_def)
  have "set (map fst best) = set (map fst param_grid_cat)"
    using best by (rule parameter_grid_keys)
  then have "''loss_function'' \<notin> set (map fst best)" "''cat_features'' \<notin> set (map fst best)"
    by (simp_all add: param_grid_cat_def)
  then have "map_of best ''loss_function'' = None" "map_of best ''cat_features'' = None"
    by (simp_all add: map_of_absent)
  then have cat_loss: "map_of (params cat) ''loss_function'' = None"
    and cat_idx: "map_of (params cat) ''cat_features'' = Some ?idx"
    unfolding cat by (simp_all add: map_add_def)
  have "get_param lib lr ''solver'' = map_of (defaults lib LogisticRegression) ''solver''"
    using lr_solver lre by (simp add: get_param_def)
  moreover have "get_param lib cat ''loss_function''
      = map_of (defaults lib CatBoostRegressor) ''loss_function''"
    using cat_loss cate by (simp add: get_param_def)
  moreover have "map_of (estimator_cat (X_train s01)) ''loss_function'' = Some (PStr ''RMSE'')"
    by (simp add: estimator_cat_def)
  ultimately show ?thesis using lr rf xgb best cat search_solver lr_solver cat_loss cat_idx
    by blast
qed


lemma pipeline_Inr:
  assumes "pipeline lib entropy df = Inr r"
  shows "clean df = Inr (df_dropped r)
       \<and> encode lib (df_dropped r) = Inr (df_encoded r)
       \<and> feature_selection lib (entropy 0) (df_encoded r) = Inr (selected_features r, df_final r)
       \<and> trainer lib entropy (df_final r) (df_dropped r)
           = Inr (split_final r, best_lr_model r, best_rf_model r, best_xgb_model r,
                  split_dropped r, best_cat_model r)"
proof -
  from assms obtain d where 1: "clean df = Inr d"
    by (cases "clean df") (simp_all add: pipeline_def)
  from assms 1 obtain e where 2: "encode lib d = Inr e"
    by (cases "encode lib d") (simp_all add: pipeline_def)
  from assms 1 2 obtain sel fin where 3: "feature_selection lib (entropy 0) e = Inr (sel, fin)"
    by (cases "feature_selection lib (entropy 0) e") (auto simp: pipeline_def)
  from assms 1 2 3 obtain s lr rf xgb s01 cat
    where 4: "trainer lib entropy fin d = Inr (s, lr, rf, xgb, s01, cat)"
    by (cases "trainer lib entropy fin d") (auto simp: pipeline_def)
  from assms 1 2 3 4 have "r = \<lparr>df_dropped = d, df_encoded = e, selected_features = sel,
               df_final = fin, split_final = s, best_lr_model = lr, best_rf_model = rf,
               best_xgb_model = xgb, split_dropped = s01, best_cat_model = cat\<rparr>"
    by (simp add: pipeline_def)
  with 1 2 3 4 show ?thesis by simp
qed


text \<open>
  The run on the seven houses raises ValueError: the training part has five houses of five
  different prices, and the logistic grid search cannot stratify them into five folds.
\<close>

lemma pipeline_houses_raises: "pipeline example_lib example_entropy houses = Inl ValueError"
  by code_simp

text \<open>The run on the twenty houses goes through all four stages.\<close>

lemma district_run:
  "map_sum id
     (\<lambda>r. (columns (df_dropped r), fitted_columns r, params (best_lr_model r),
           params (best_rf_model r), params (best_xgb_model r), params (best_cat_model r)))
     (pipeline example_lib example_entropy district)
   = Inr ([''MSZoning'', ''LotFrontage'', ''LotArea'', ''Street'', ''LotShape'',
           ''LandContour'', ''Utilities'', ''LotConfig'', ''LandSlope'', ''Neighborhood'',
           ''Condition1'', ''Condition2'', ''BldgType'', ''HouseStyle'', ''OverallQual'',
           ''RoofStyle'', ''RoofMatl'', ''Exterior1st'', ''Exterior2nd'', ''ExterQual'',
           ''ExterCond'', ''Foundation'', ''BsmtQual'', ''BsmtCond'', ''BsmtExposure'',
           ''BsmtFinType1'', ''BsmtFinType2'', ''Heating'', ''HeatingQC'', ''CentralAir'',
           ''Electrical'', ''KitchenQual'', ''Functional'', ''GarageType'', ''GarageFinish'',
           ''GarageQual'', ''GarageCond'', ''PavedDrive'', ''SaleType'', ''SaleCondition'',
           ''SalePrice''],
          ([''LotFrontage'', ''LotArea'', ''LotShape'', ''SalePrice''],
           [''LotFrontage'', ''LotArea'', ''LotShape''],
           [''MSZoning'', ''LotFrontage'', ''LotArea'', ''Street'', ''LotShape'',
            ''LandContour'', ''Utilities'', ''LotConfig'', ''LandSlope'', ''Neighborhood'',
            ''Condition1'', ''Condition2'', ''BldgType'', ''HouseStyle'', ''OverallQual'',
            ''RoofStyle'', ''RoofMatl'', ''Exterior1st'', ''Exterior2nd'', ''ExterQual'',
            ''ExterCond'', ''Foundation'', ''BsmtQual'', ''BsmtCond'', ''BsmtExposure'',
            ''BsmtFinType1'', ''BsmtFinType2'', ''Heating'', ''HeatingQC'', ''CentralAir'',
            ''Electrical'', ''KitchenQual'', ''Functional'', ''GarageType'', ''GarageFinish'',
            ''GarageQual'', ''GarageCond'', ''PavedDrive'', ''SaleType'', ''SaleCondition'']),
          [(''C'', PFloat 0.001)],
          [(''max_depth'', PInt 6), (''max_features'', PStr ''sqrt''),
           (''n_estimators'', PInt 100)],
          [(''colsample_bytree'', PFloat 0.5), (''gamma'', PFloat 0),
           (''learning_rate'', PFloat 0.01), (''max_depth'', PInt 7),
           (''n_estimators'', PInt 100)],
          [(''depth'', PInt 6), (''iterations'', PInt 50), (''learning_rate'', PFloat 0.01),
           (''cat_features'',
            PIndices [0, 3, 4, 5, 6, 7, 8, 9, 10, 11, 12, 13, 15, 16, 17, 18, 19, 20, 21, 22,
              23, 24, 25, 26, 27, 28, 29, 30, 31, 32, 33, 34, 35, 36, 37, 38, 39])])"
  by code_simp

lemma district_returns:
  "\<exists>r. pipeline example_lib example_entropy district = Inr r
       \<and> columns (df_dropped r) = [''MSZoning'', ''LotFrontage'', ''LotArea'', ''Street'', ''LotShape'',
           ''LandContour'', ''Utilities'', ''LotConfig'', ''LandSlope'', ''Neighborhood'',
           ''Condition1'', ''Condition2'', ''BldgType'', ''HouseStyle'', ''OverallQual'',
           ''RoofStyle'', ''RoofMatl'', ''Exterior1st'', ''Exterior2nd'', ''ExterQual'',
           ''ExterCond'', ''Foundation'', ''BsmtQual'', ''BsmtCond'', ''BsmtExposure'',
           ''BsmtFinType1'', ''BsmtFinType2'', ''Heating'', ''HeatingQC'', ''CentralAir'',
           ''Electrical'', ''KitchenQual'', ''Functional'', ''GarageType'', ''GarageFinish'',
           ''GarageQual'', ''GarageCond'', ''PavedDrive'', ''SaleType'', ''SaleCondition'',
           ''SalePrice'']
       \<and> fitted_columns r =
           ([''LotFrontage'', ''LotArea'', ''LotShape'', ''SalePrice''],
            [''LotFrontage'', ''LotArea'', ''LotShape''],
            [''MSZoning'', ''LotFrontage'', ''LotArea'', ''Street'', ''LotShape'',
            ''LandContour'', ''Utilities'', ''LotConfig'', ''LandSlope'', ''Neighborhood'',
            ''Condition1'', ''Condition2'', ''BldgType'', ''HouseStyle'', ''OverallQual'',
            ''RoofStyle'', ''RoofMatl'', ''Exterior1st'', ''Exterior2nd'', ''ExterQual'',
            ''ExterCond'', ''Foundation'', ''BsmtQual'', ''BsmtCond'', ''BsmtExposure'',
            ''BsmtFinType1'', ''BsmtFinType2'', ''Heating'', ''HeatingQC'', ''CentralAir'',
            ''Electrical'', ''KitchenQual'', ''Functional'', ''GarageType'', ''GarageFinish'',
            ''GarageQual'', ''GarageCond'', ''PavedDrive'', ''SaleType'', ''SaleCondition''])
       \<and> params (best_lr_model r) = [(''C'', PFloat 0.001)]"
proof (cases "pipeline example_lib example_entropy district")
  case (Inl e)
  then show ?thesis using district_run by simp
next
  case (Inr r)
  then show ?thesis using district_run by simp
qed



theorem final_models_use_grid_params_only_witness:
  "\<exists>r. trainer example_lib example_entropy (df_final r) (df_dropped r)
         = Inr (split_final r, best_lr_model r, best_rf_model r, best_xgb_model r,
                split_dropped r, best_cat_model r)
       \<and> pipeline example_lib example_entropy district = Inr r
       \<and> params (best_lr_model r) = [(''C'', PFloat 0.001)]
       \<and> map_of (params (best_lr_model r)) ''solver'' = None
       \<and> map_of (set_params estimator_lr (params (best_lr_model r))) ''solver''
           = Some (PStr ''liblinear'')
       \<and> map_of (params (best_cat_model r)) ''loss_function'' = None
       \<and> map_of (params (best_cat_model r)) ''cat_features''
           = Some (PIndices (categorical_features_indices (X_train (split_dropped r))))"
proof -
  from district_returns obtain r
    where r: "pipeline example_lib example_entropy district = Inr r"
      and p: "params (best_lr_model r) = [(''C'', PFloat 0.001)]"
    by blast
  from pipeline_Inr [OF r]
  have tr: "trainer example_lib example_entropy (df_final r) (df_dropped r)
         = Inr (split_final r, best_lr_model r, best_rf_model r, best_xgb_model r,
                split_dropped r, best_cat_model r)"
    by blast
  from final_models_use_grid_params_only [OF tr] tr r p show ?thesis by blast
qed


section \<open>The Evaluator\<close>

lemma notebook_has_no_metrics:
  "''mean_absolute_error'' \<notin> set notebook_globals"
  by (simp add: notebook_globals_def imported_names_def assigned_names_def builtin_names_def)

text \<open>
  Claim C8 says that the Evaluator yields the four metrics for any two vectors of equal
  length. In the notebook, \<^verbatim>\<open>mean_absolute_error\<close>, \<^verbatim>\<open>mean_squared_error\<close>,
  \<^verbatim>\<open>sqrt\<close> and \<^verbatim>\<open>r2_score\<close> are never imported or defined, so the first line
  of \<^verbatim>\<open>eval_metrics\<close> raises NameError, on these two houses as on any input.
\<close>

theorem eval_metrics_name_error:
  "eval_metrics notebook_globals [208500, 181500] [200000, 190000]
     = Inl (NameError ''mean_absolute_error'')"
  by (simp add: eval_metrics_def call_global_def notebook_has_no_metrics)

text \<open>
  With the four names bound, the function does what the claim says on non-empty vectors
  of equal length.
\<close>

lemma eval_metrics_bound:
  assumes "set [''mean_absolute_error'', ''mean_squared_error'', ''sqrt'', ''r2_score'']
             \<subseteq> set globals"
    "length y = length pred" "y \<noteq> []"
  shows "\<exists>m. eval_metrics globals y pred = Inr m \<and> rmse m = sqrt (mse m)"
proof -
  have "0 \<le> sum_list (map2 (\<lambda>a b. (a - b)\<^sup>2) y pred)"
    by (rule sum_list_nonneg) auto
  then have "0 \<le> sum_list (map2 (\<lambda>a b. (a - b)\<^sup>2) y pred) / real (length y)" by simp
  then show ?thesis using assms
    by (auto simp: eval_metrics_def call_global_def mean_absolute_error_def
        mean_squared_error_def py_sqrt_def r2_score_def Let_def)
qed

end
